theory Spec2Isabelle
  imports Complex_Main
begin

section \<open>JavaScript values\<close>

text \<open>
  The script \<^verbatim>\<open>scripts/generate-rss.mjs\<close> works on untyped data recovered from a web
  page. A value is modelled as plain data: \<^verbatim>\<open>undefined\<close>, \<^verbatim>\<open>null\<close>, a boolean, a number,
  a string, an array or an object with named properties (an association list, read with
  \<open>map_of\<close>).

  Strings are the UTF-8 bytes that the script finally writes to the feed file; every
  character the script inspects or inserts itself is ASCII, so working on bytes or on
  UTF-16 code units gives the same text. A number inside the recovered data is an integer
  (an identifier such as \<^verbatim>\<open>aid\<close>) or \<^verbatim>\<open>NaN\<close>, the one number besides 0 that counts
  as false; fractions and infinities are left out. Functions, accessors and other active
  content of an object are left out as well: reading a property and converting a value to
  text always succeed. The configuration numbers are reals, since \<open>envNumber\<close> delivers
  finite numbers only; a ceiling and a delay are numbers of the machine (\<open>jsnum\<close>).
\<close>

datatype jsval =
    JUndefined
  | JNull
  | JBool bool
  | JNum int
  | JNaN
  | JStr string
  | JArr "jsval list"
  | JObj "(string \<times> jsval) list"

text \<open>Truthiness, as used by \<^verbatim>\<open>if (x)\<close>, \<^verbatim>\<open>!x\<close>, \<^verbatim>\<open>x ? a : b\<close> and \<^verbatim>\<open>x || y\<close>.\<close>

fun truthy :: "jsval \<Rightarrow> bool" where
  "truthy JUndefined = False"
| "truthy JNull = False"
| "truthy (JBool b) = b"
| "truthy (JNum n) = (n \<noteq> 0)"
| "truthy JNaN = False"
| "truthy (JStr s) = (s \<noteq> [])"
| "truthy (JArr xs) = True"
| "truthy (JObj kvs) = True"

text \<open>\<^verbatim>\<open>x ?? d\<close>: the default replaces \<^verbatim>\<open>undefined\<close> and \<^verbatim>\<open>null\<close> only.\<close>

fun nullish_or :: "jsval \<Rightarrow> jsval \<Rightarrow> jsval" where
  "nullish_or JUndefined d = d"
| "nullish_or JNull d = d"
| "nullish_or v d = v"

text \<open>
  \<^verbatim>\<open>x?.name\<close> for the property names the script reads (\<^verbatim>\<open>title\<close>, \<^verbatim>\<open>url\<close>, \<^verbatim>\<open>aid\<close>,
  \<^verbatim>\<open>user_info\<close>, \<^verbatim>\<open>username\<close>, \<^verbatim>\<open>pic_path\<close>, \<^verbatim>\<open>is_original\<close>, \<^verbatim>\<open>is_video_article\<close>,
  \<^verbatim>\<open>data\<close>, \<^verbatim>\<open>hotArticlesList\<close>): none of them is a built-in property of a primitive
  or of an array, so only an object can answer with something else than \<^verbatim>\<open>undefined\<close>.
\<close>

fun opt_chain :: "jsval \<Rightarrow> string \<Rightarrow> jsval" where
  "opt_chain (JObj kvs) name = (case map_of kvs name of Some v \<Rightarrow> v | None \<Rightarrow> JUndefined)"
| "opt_chain v name = JUndefined"

fun isArray :: "jsval \<Rightarrow> bool" where
  "isArray (JArr xs) = True"
| "isArray v = False"

subsection \<open>Conversion to text\<close>

fun nat_digits :: "nat \<Rightarrow> string" where
  "nat_digits n =
     (if n < 10 then [''0123456789'' ! n]
      else nat_digits (n div 10) @ [''0123456789'' ! (n mod 10)])"

definition int_text :: "int \<Rightarrow> string" where
  "int_text i = (if i < 0 then ''-'' @ nat_digits (nat (- i)) else nat_digits (nat i))"

text \<open>\<^verbatim>\<open>Array.prototype.join\<close> on texts.\<close>

fun join :: "string \<Rightarrow> string list \<Rightarrow> string" where
  "join sep [] = []"
| "join sep [x] = x"
| "join sep (x # y # ys) = x @ sep @ join sep (y # ys)"

text \<open>
  \<^verbatim>\<open>String(v)\<close>. An array prints its elements separated by commas, with \<^verbatim>\<open>undefined\<close>
  and \<^verbatim>\<open>null\<close> elements printed as nothing; a plain object prints as
  \<^verbatim>\<open>[object Object]\<close>. An integer prints in plain decimal, which is what the language
  does for a magnitude below \<open>10^21\<close>: identifiers beyond it, and arrays with holes, are
  left out.
\<close>

fun String_js :: "jsval \<Rightarrow> string" where
  "String_js JUndefined = ''undefined''"
| "String_js JNull = ''null''"
| "String_js (JBool b) = (if b then ''true'' else ''false'')"
| "String_js (JNum n) = int_text n"
| "String_js JNaN = ''NaN''"
| "String_js (JStr s) = s"
| "String_js (JArr xs) =
     join '','' (map (\<lambda>x. if x = JUndefined \<or> x = JNull then [] else String_js x) xs)"
| "String_js (JObj kvs) = ''[object Object]''"

section \<open>The XML escaper\<close>

text \<open>\<^verbatim>\<open>s.replaceAll(c, r)\<close> for a one-character pattern \<open>c\<close>.\<close>

definition replaceAll :: "char \<Rightarrow> string \<Rightarrow> string \<Rightarrow> string" where
  "replaceAll c r s = concat (map (\<lambda>x. if x = c then r else [x]) s)"

definition escapeXml :: "jsval \<Rightarrow> string" where
  \<open>escapeXml s =
     replaceAll (CHR 0x27) ''&apos;''
       (replaceAll (CHR ''"'') ''&quot;''
         (replaceAll (CHR ''>'') ''&gt;''
           (replaceAll (CHR ''<'') ''&lt;''
             (replaceAll (CHR ''&'') ''&amp;''
               (String_js (nullish_or s (JStr '''')))))))\<close>

section \<open>The feed transformer\<close>

text \<open>
  The locals of the arrow function that \<^verbatim>\<open>buildRssFromHotArticles\<close> maps over the
  article list, one definition for each, under the name it has in the source.
\<close>

definition itemTitle :: "jsval \<Rightarrow> string" where
  "itemTitle a = escapeXml (nullish_or (opt_chain a ''title'') (JStr ''''))"

definition itemLink :: "jsval \<Rightarrow> string" where
  "itemLink a = escapeXml (nullish_or (opt_chain a ''url'') (JStr ''''))"

definition guidRaw :: "jsval \<Rightarrow> string" where
  "guidRaw a =
     (if itemLink a \<noteq> [] then itemLink a
      else String_js (nullish_or (opt_chain a ''aid'') (JStr '''')))"

definition guid :: "jsval \<Rightarrow> string" where
  "guid a = escapeXml (JStr (guidRaw a))"

definition userInfo :: "jsval \<Rightarrow> jsval" where
  "userInfo a = opt_chain a ''user_info''"

definition author :: "jsval \<Rightarrow> string" where
  "author a = escapeXml (nullish_or (opt_chain (userInfo a) ''username'') (JStr ''''))"

definition picPath :: "jsval \<Rightarrow> jsval" where
  "picPath a = opt_chain a ''pic_path''"

definition enclosure :: "jsval \<Rightarrow> string" where
  \<open>enclosure a =
     (if truthy (picPath a)
      then [CHR 0x0A] @ ''      <enclosure url="'' @ escapeXml (picPath a) @ ''" type="image/jpeg" />''
      else [])\<close>

definition isOriginal :: "jsval \<Rightarrow> jsval" where
  "isOriginal a = opt_chain a ''is_original''"

definition isVideo :: "jsval \<Rightarrow> jsval" where
  "isVideo a = opt_chain a ''is_video_article''"

text \<open>The three fixed texts of the description, as UTF-8.\<close>

definition text_original :: string where
  "text_original = [CHR 0xE5, CHR 0x8E, CHR 0x9F, CHR 0xE5, CHR 0x88, CHR 0x9B]"

definition text_video :: string where
  "text_video = [CHR 0xE8, CHR 0xA7, CHR 0x86, CHR 0xE9, CHR 0xA2, CHR 0x91]"

definition text_author :: string where
  "text_author =
     [CHR 0xE4, CHR 0xBD, CHR 0x9C, CHR 0xE8, CHR 0x80, CHR 0x85, CHR 0xEF, CHR 0xBC, CHR 0x9A]"

definition descParts :: "jsval \<Rightarrow> string list" where
  "descParts a =
     (if truthy (isOriginal a) then [text_original] else []) @
     (if truthy (isVideo a) then [text_video] else []) @
     (if author a \<noteq> [] then [text_author @ author a] else [])"

definition descText :: "jsval \<Rightarrow> string" where
  "descText a = join '' | '' (descParts a)"

definition authorTag :: "jsval \<Rightarrow> string" where
  "authorTag a =
     (if author a \<noteq> [] then ''<author>'' @ author a @ ''</author>'' else ''<author />'')"

definition isPermaLink :: "jsval \<Rightarrow> string" where
  "isPermaLink a = (if itemLink a \<noteq> [] then ''true'' else ''false'')"

definition buildItem :: "jsval \<Rightarrow> string" where
  \<open>buildItem a =
     join [CHR 0x0A]
       [''    <item>'',
        ''      <title>'' @ itemTitle a @ ''</title>'',
        ''      <link>'' @ itemLink a @ ''</link>'',
        ''      <guid isPermaLink="'' @ isPermaLink a @ ''">'' @ guid a @ ''</guid>'',
        ''      '' @ authorTag a,
        ''      <description><![CDATA['' @ descText a @ '']]></description>'' @ enclosure a,
        ''    </item>'']\<close>

text \<open>
  The options of \<^verbatim>\<open>buildRssFromHotArticles\<close>: each of the three may be absent. The
  time of the build, \<^verbatim>\<open>new Date().toUTCString()\<close>, is read from the clock; the model
  takes its text as the argument \<open>now\<close>.
\<close>

record rss_opts =
  title :: "string option"
  link :: "string option"
  description :: "string option"

definition HOME_URL :: string where
  "HOME_URL = ''https://m.huxiu.com/''"

definition default_title :: string where
  "default_title =
     [CHR 0xE8, CHR 0x99, CHR 0x8E, CHR 0xE5, CHR 0x97, CHR 0x85, CHR '' '', CHR ''-'', CHR '' '',
      CHR 0xE7, CHR 0x83, CHR 0xAD, CHR 0xE9, CHR 0x97, CHR 0xA8, CHR 0xE6, CHR 0x96, CHR 0x87,
      CHR 0xE7, CHR 0xAB, CHR 0xA0]"

definition default_description :: string where
  "default_description =
     [CHR 0xE6, CHR 0x9D, CHR 0xA5, CHR 0xE8, CHR 0x87, CHR 0xAA] @ '' m.huxiu.com '' @
     [CHR 0xE9, CHR 0xA6, CHR 0x96, CHR 0xE9, CHR 0xA1, CHR 0xB5, CHR 0xE7, CHR 0x9A, CHR 0x84] @
     '' hotArticlesList''"

definition items :: "jsval list \<Rightarrow> string" where
  "items hotArticlesList = join [CHR 0x0A] (map buildItem hotArticlesList)"

definition buildRssFromHotArticles :: "jsval list \<Rightarrow> rss_opts \<Rightarrow> string \<Rightarrow> string" where
  \<open>buildRssFromHotArticles hotArticlesList opts now =
     (let title' = (case title opts of Some t \<Rightarrow> t | None \<Rightarrow> default_title);
          link' = (case link opts of Some l \<Rightarrow> l | None \<Rightarrow> HOME_URL);
          description' = (case description opts of Some d \<Rightarrow> d | None \<Rightarrow> default_description)
      in join [CHR 0x0A]
           [''<?xml version="1.0" encoding="UTF-8"?>'',
            ''<rss version="2.0">'',
            ''  <channel>'',
            ''    <title>'' @ escapeXml (JStr title') @ ''</title>'',
            ''    <link>'' @ escapeXml (JStr link') @ ''</link>'',
            ''    <description>'' @ escapeXml (JStr description') @ ''</description>'',
            ''    <lastBuildDate>'' @ now @ ''</lastBuildDate>'',
            items hotArticlesList,
            ''  </channel>'',
            ''</rss>'',
            ''''])\<close>

section \<open>Configuration\<close>

text \<open>
  The result of \<^verbatim>\<open>Number(raw)\<close>: a finite number, or one of the three values that
  \<^verbatim>\<open>Number.isFinite\<close> rejects.
\<close>

datatype jsnum = Finite real | NaN | PosInfinity | NegInfinity

text \<open>
  \<^verbatim>\<open>envNumber(name, fallback)\<close>. The environment \<open>env\<close> maps a variable to its text
  when it is set. The conversion \<^verbatim>\<open>Number\<close> belongs to the language, not to the script:
  it is the parameter \<open>toNumber\<close>, so that what is proved holds for whatever it answers.
\<close>

definition envNumber :: "(string \<Rightarrow> jsnum) \<Rightarrow> (string \<rightharpoonup> string) \<Rightarrow> string \<Rightarrow> real \<Rightarrow> real" where
  "envNumber toNumber env name fallback =
     (case env name of
        None \<Rightarrow> fallback
      | Some raw \<Rightarrow>
          if raw = [] then fallback
          else (case toNumber raw of Finite n \<Rightarrow> n | _ \<Rightarrow> fallback))"

definition FETCH_RETRY_MAX :: "(string \<Rightarrow> jsnum) \<Rightarrow> (string \<rightharpoonup> string) \<Rightarrow> real" where
  "FETCH_RETRY_MAX toNumber env = envNumber toNumber env ''FETCH_RETRY_MAX'' 3"

definition FETCH_RETRY_BASE_DELAY_MS :: "(string \<Rightarrow> jsnum) \<Rightarrow> (string \<rightharpoonup> string) \<Rightarrow> real" where
  "FETCH_RETRY_BASE_DELAY_MS toNumber env = envNumber toNumber env ''FETCH_RETRY_BASE_DELAY_MS'' 500"

definition FETCH_RETRY_MAX_DELAY_MS :: "(string \<Rightarrow> jsnum) \<Rightarrow> (string \<rightharpoonup> string) \<Rightarrow> real" where
  "FETCH_RETRY_MAX_DELAY_MS toNumber env = envNumber toNumber env ''FETCH_RETRY_MAX_DELAY_MS'' 8000"

text \<open>
  What \<^verbatim>\<open>Number\<close> answers on a decimal integer with an optional sign, such as
  \<^verbatim>\<open>"3"\<close>, \<^verbatim>\<open>"+250"\<close> or \<^verbatim>\<open>"-5"\<close>, possibly between ASCII blanks: the integer, an
  infinity from the magnitude on at which doubles overflow, \<open>0\<close> for a text of blanks; and
  \<^verbatim>\<open>NaN\<close> on a text with a character that no number contains. It is used to run
  \<open>envNumber\<close> on such texts only: the other numeric forms of the language (fractions,
  exponents, other bases) and the rounding of an integer that is no double are not
  covered.
\<close>

definition digit_value :: "char \<Rightarrow> nat option" where
  "digit_value c =
     (let code = (of_char c :: nat)
      in if 48 \<le> code \<and> code \<le> 57 then Some (code - 48) else None)"

fun decimal_value :: "nat \<Rightarrow> string \<Rightarrow> nat option" where
  "decimal_value acc [] = Some acc"
| "decimal_value acc (c # cs) =
     (case digit_value c of None \<Rightarrow> None | Some d \<Rightarrow> decimal_value (10 * acc + d) cs)"

definition blank :: "char \<Rightarrow> bool" where
  "blank c = (c = CHR 0x09 \<or> c = CHR 0x0A \<or> c = CHR 0x0B \<or> c = CHR 0x0C \<or> c = CHR 0x0D \<or> c = CHR 0x20)"

definition trim :: "string \<Rightarrow> string" where
  "trim s = rev (dropWhile blank (rev (dropWhile blank s)))"

definition Number_decimal :: "string \<Rightarrow> jsnum" where
  "Number_decimal raw =
     (let t = trim raw;
          (negative, ds) =
            (case t of
               c # cs \<Rightarrow> if c = CHR ''-'' then (True, cs) else if c = CHR ''+'' then (False, cs)
                         else (False, t)
             | [] \<Rightarrow> (False, t))
      in if t = [] then Finite 0
         else if ds = [] then NaN
         else (case decimal_value 0 ds of
                 None \<Rightarrow> NaN
               | Some n \<Rightarrow>
                   if 2 ^ 1024 - 2 ^ 970 \<le> n
                   then (if negative then NegInfinity else PosInfinity)
                   else Finite (if negative then - real n else real n)))"

section \<open>Numbers of the machine\<close>

text \<open>
  The script computes in IEEE double precision. Comparisons, \<^verbatim>\<open>Math.max\<close>,
  \<^verbatim>\<open>Math.min\<close> and \<^verbatim>\<open>Math.floor\<close> are exact on doubles and are defined here on
  \<open>jsnum\<close>, with the behaviour of \<^verbatim>\<open>NaN\<close> and of the infinities. Multiplication,
  addition and \<^verbatim>\<open>Math.pow(2, \<dots>)\<close> round and overflow: they belong to the machine and
  are the three fields of the parameter \<open>platform\<close>, so that what is proved of the backoff
  holds whatever they answer.
\<close>

fun num_le :: "real \<Rightarrow> jsnum \<Rightarrow> bool" where
  "num_le x (Finite y) = (x \<le> y)"
| "num_le x NaN = False"
| "num_le x PosInfinity = True"
| "num_le x NegInfinity = False"

fun num_ge :: "real \<Rightarrow> jsnum \<Rightarrow> bool" where
  "num_ge x (Finite y) = (x \<ge> y)"
| "num_ge x NaN = False"
| "num_ge x PosInfinity = False"
| "num_ge x NegInfinity = True"

fun Math_max :: "jsnum \<Rightarrow> jsnum \<Rightarrow> jsnum" where
  "Math_max NaN b = NaN"
| "Math_max a NaN = NaN"
| "Math_max PosInfinity b = PosInfinity"
| "Math_max a PosInfinity = PosInfinity"
| "Math_max NegInfinity b = b"
| "Math_max a NegInfinity = a"
| "Math_max (Finite x) (Finite y) = Finite (max x y)"

fun Math_min :: "jsnum \<Rightarrow> jsnum \<Rightarrow> jsnum" where
  "Math_min NaN b = NaN"
| "Math_min a NaN = NaN"
| "Math_min NegInfinity b = NegInfinity"
| "Math_min a NegInfinity = NegInfinity"
| "Math_min PosInfinity b = b"
| "Math_min a PosInfinity = a"
| "Math_min (Finite x) (Finite y) = Finite (min x y)"

fun Math_floor :: "jsnum \<Rightarrow> jsnum" where
  "Math_floor (Finite x) = Finite (of_int \<lfloor>x\<rfloor>)"
| "Math_floor v = v"

record platform =
  Math_pow2 :: "int \<Rightarrow> jsnum"
  times :: "jsnum \<Rightarrow> jsnum \<Rightarrow> jsnum"
  plus :: "jsnum \<Rightarrow> jsnum \<Rightarrow> jsnum"

section \<open>The backoff policy\<close>

definition clamp :: "jsnum \<Rightarrow> jsnum \<Rightarrow> jsnum \<Rightarrow> jsnum" where
  "clamp n lo hi = Math_min (Math_max n lo) hi"

text \<open>
  \<^verbatim>\<open>backoffDelayMs(attempt)\<close> reads the two module constants, finite numbers that
  \<open>envNumber\<close> delivers, and one draw of \<^verbatim>\<open>Math.random()\<close>: the three are arguments
  here. \<open>jitter\<close> is the local of that name, the double that the machine computes for
  \<^verbatim>\<open>base * 2^(attempt-1) * (0.5 + random)\<close>.
\<close>

definition jitter :: "platform \<Rightarrow> real \<Rightarrow> real \<Rightarrow> nat \<Rightarrow> jsnum" where
  "jitter P base random attempt =
     (let exp = times P (Finite base) (Math_pow2 P (int attempt - 1))
      in times P exp (plus P (Finite 0.5) (Finite random)))"

definition backoffDelayMs :: "platform \<Rightarrow> real \<Rightarrow> real \<Rightarrow> real \<Rightarrow> nat \<Rightarrow> jsnum" where
  "backoffDelayMs P base maxDelay random attempt =
     clamp (Math_floor (jitter P base random attempt)) (Finite 0) (Finite maxDelay)"

section \<open>The retrying fetcher\<close>

text \<open>
  An operation is a function of the state of the world that returns its outcome, a
  failure (\<open>Inl\<close>) or a value (\<open>Inr\<close>), with the state it leaves. The ceiling
  \<^verbatim>\<open>maxAttempts\<close> is absent or any number, \<^verbatim>\<open>NaN\<close> and the infinities included.

  After a failure that is not the last, the script builds the text of a warning from the
  failure (\<^verbatim>\<open>err?.stack || err?.message || String(err)\<close>), which can throw: \<open>describe err\<close>
  is the value thrown, \<open>None\<close> when the text is built. A warning that is printed is recorded
  with the values it interpolates; sleeping changes nothing else. \<open>random i\<close> is the draw of
  \<^verbatim>\<open>Math.random()\<close> made after attempt \<open>i\<close> failed.

  The counter of the loop is a double: adding 1 is exact below \<open>2^53\<close> and leaves the
  counter as it is from there on.
\<close>

record 'e retry_note =
  note_label :: string
  note_attempt :: nat
  note_attempts :: jsnum
  note_delay :: jsnum
  note_error :: 'e

record retry_opts =
  maxAttempts :: "jsnum option"
  label :: "string option"

definition next_attempt :: "nat \<Rightarrow> nat" where
  "next_attempt attempt = (if attempt < 9007199254740992 then attempt + 1 else attempt)"

text \<open>
  The \<^verbatim>\<open>for\<close> loop of \<^verbatim>\<open>withRetry\<close>, from the value \<open>attempt\<close> of its counter on.
  \<open>lastError\<close> is \<open>None\<close> as long as the variable is unset; leaving the loop throws it.
  The loop need not end (an infinite ceiling, an operation that fails for ever): \<open>fuel\<close>
  bounds the number of iterations, and the result is \<open>None\<close> when it does not suffice.
\<close>

fun withRetry_loop ::
  "nat \<Rightarrow> ('s \<Rightarrow> ('e + 'a) \<times> 's) \<Rightarrow> ('e \<Rightarrow> 'e option) \<Rightarrow> platform \<Rightarrow> real \<Rightarrow> real \<Rightarrow>
   (nat \<Rightarrow> real) \<Rightarrow> string \<Rightarrow> jsnum \<Rightarrow> nat \<Rightarrow> 'e option \<Rightarrow> 's \<Rightarrow> 'e retry_note list \<Rightarrow>
   (('e option + 'a) \<times> 's \<times> 'e retry_note list) option" where
  "withRetry_loop 0 fn describe P base maxDelay random opLabel attempts attempt lastError s journal
     = None"
| "withRetry_loop (Suc fuel) fn describe P base maxDelay random opLabel attempts attempt lastError s
     journal =
     (if num_le (real attempt) attempts then
        (case fn s of
           (Inr v, s') \<Rightarrow> Some (Inr v, s', journal)
         | (Inl err, s') \<Rightarrow>
             if num_ge (real attempt) attempts then Some (Inl (Some err), s', journal)
             else
               (case describe err of
                  Some thrown \<Rightarrow> Some (Inl (Some thrown), s', journal)
                | None \<Rightarrow>
                    withRetry_loop fuel fn describe P base maxDelay random opLabel attempts
                      (next_attempt attempt) (Some err) s'
                      (journal @
                       [\<lparr>note_label = opLabel, note_attempt = attempt, note_attempts = attempts,
                         note_delay = backoffDelayMs P base maxDelay (random attempt) attempt,
                         note_error = err\<rparr>])))
      else Some (Inl lastError, s, journal))"

declare withRetry_loop.simps(2) [simp del]

definition withRetry ::
  "nat \<Rightarrow> ('e \<Rightarrow> 'e option) \<Rightarrow> platform \<Rightarrow> real \<Rightarrow> real \<Rightarrow> (nat \<Rightarrow> real) \<Rightarrow>
   ('s \<Rightarrow> ('e + 'a) \<times> 's) \<Rightarrow> retry_opts \<Rightarrow> 's \<Rightarrow>
   (('e option + 'a) \<times> 's \<times> 'e retry_note list) option" where
  "withRetry fuel describe P base maxDelay random fn opts s =
     (let attempts = Math_max (Finite 1) (case maxAttempts opts of Some m \<Rightarrow> m | None \<Rightarrow> Finite 1);
          opLabel = (case label opts of Some l \<Rightarrow> l | None \<Rightarrow> ''operation'')
      in withRetry_loop fuel fn describe P base maxDelay random opLabel attempts 1 None s [])"

text \<open>
  Vocabulary for statements about an operation \<open>fn\<close> started in state \<open>s\<close>: the state
  after \<open>i\<close> invocations, the outcome of invocation \<open>i + 1\<close>, and the same operation
  with a counter of its invocations beside its state.
\<close>

fun state_after :: "('s \<Rightarrow> ('e + 'a) \<times> 's) \<Rightarrow> 's \<Rightarrow> nat \<Rightarrow> 's" where
  "state_after fn s 0 = s"
| "state_after fn s (Suc i) = state_after fn (snd (fn s)) i"

fun outcome :: "('s \<Rightarrow> ('e + 'a) \<times> 's) \<Rightarrow> 's \<Rightarrow> nat \<Rightarrow> 'e + 'a" where
  "outcome fn s 0 = fst (fn s)"
| "outcome fn s (Suc i) = outcome fn (snd (fn s)) i"

definition counting :: "('s \<Rightarrow> ('e + 'a) \<times> 's) \<Rightarrow> 's \<times> nat \<Rightarrow> ('e + 'a) \<times> 's \<times> nat" where
  "counting fn = (\<lambda>(s, n). case fn s of (r, s') \<Rightarrow> (r, (s', Suc n)))"

section \<open>Errors of the pipeline\<close>

datatype error =
    HttpError nat string
  | TransportError string
  | ThrownUnset
  | NotFoundError
  | SandboxError jsval
  | NoResultError
  | StructureError

text \<open>
  \<open>HttpError status statusText\<close> is the error \<^verbatim>\<open>fetchHtml\<close> raises on a response that is
  not ok; \<open>TransportError\<close> is a rejection of \<^verbatim>\<open>fetch\<close> or of reading the body;
  \<open>ThrownUnset\<close> is \<^verbatim>\<open>throw lastError\<close> with the variable still unset;
  \<open>NotFoundError\<close> is raised by \<^verbatim>\<open>extractNuxtExpression\<close>, \<open>SandboxError\<close> (with the
  value thrown) and \<open>NoResultError\<close> by \<^verbatim>\<open>evalNuxtExpression\<close>, \<open>StructureError\<close> by
  \<^verbatim>\<open>generateRss\<close>.
\<close>

section \<open>Fetching the page\<close>

record response =
  res_ok :: bool
  res_status :: nat
  res_statusText :: string
  res_text :: "string + string"

text \<open>
  The network is the parameter \<open>fetch\<close>: from a URL and the state of the world, a
  rejection (\<open>Inl\<close>) or a response, whose body is read with \<^verbatim>\<open>res.text()\<close>, which may
  reject as well.
\<close>

definition fetchHtml ::
  "(string \<Rightarrow> 'w \<Rightarrow> (string + response) \<times> 'w) \<Rightarrow> string \<Rightarrow> 'w \<Rightarrow> (error + string) \<times> 'w" where
  "fetchHtml fetch url w =
     (case fetch url w of
        (Inl reason, w') \<Rightarrow> (Inl (TransportError reason), w')
      | (Inr res, w') \<Rightarrow>
          if \<not> res_ok res then (Inl (HttpError (res_status res) (res_statusText res)), w')
          else (case res_text res of
                  Inl reason \<Rightarrow> (Inl (TransportError reason), w')
                | Inr body \<Rightarrow> (Inr body, w')))"

text \<open>
  What \<^verbatim>\<open>fetchHtml\<close> throws is an \<^verbatim>\<open>Error\<close> object, of the script or of
  \<^verbatim>\<open>fetch\<close>: the text of the warning is always built from it.
\<close>

definition fetchHtmlWithRetry ::
  "nat \<Rightarrow> platform \<Rightarrow> (string \<Rightarrow> jsnum) \<Rightarrow> (string \<rightharpoonup> string) \<Rightarrow> (nat \<Rightarrow> real) \<Rightarrow>
   (string \<Rightarrow> 'w \<Rightarrow> (string + response) \<times> 'w) \<Rightarrow> string \<Rightarrow> 'w \<Rightarrow>
   ((error option + string) \<times> 'w \<times> error retry_note list) option" where
  "fetchHtmlWithRetry fuel P toNumber env random fetch url w =
     withRetry fuel (\<lambda>err. None) P
       (FETCH_RETRY_BASE_DELAY_MS toNumber env) (FETCH_RETRY_MAX_DELAY_MS toNumber env)
       random (fetchHtml fetch url)
       \<lparr>maxAttempts = Some (Finite (FETCH_RETRY_MAX toNumber env)), label = Some (''fetch '' @ url)\<rparr>
       w"

section \<open>The embedded-expression extractor\<close>

text \<open>
  The regular expression of \<^verbatim>\<open>extractNuxtExpression\<close> is a sequence of six kinds of
  pieces: a literal text, \<^verbatim>\<open>\s*\<close> (greedy), \<^verbatim>\<open>[\s\S]*?\<close> (lazy), an optional character
  (greedy), and the two ends of the capturing group.
\<close>

datatype piece = Lit string | Spaces | AnyLazy | Optional char | GroupOpen | GroupClose

definition NUXT_RE :: "piece list" where
  "NUXT_RE =
     [Lit ''window.__NUXT__'', Spaces, Lit ''='', Spaces,
      GroupOpen,
        Lit ''('', Spaces, Lit ''function'', Spaces, Lit ''('', AnyLazy, Lit '')'', Spaces,
        Lit ''{'', AnyLazy, Lit ''}'', Spaces, Lit ''('', AnyLazy, Lit '')'', Spaces, Lit '')'',
      GroupClose,
      Spaces, Optional (CHR '';'')]"

text \<open>
  The number of bytes of the white-space character (the class \<^verbatim>\<open>\s\<close>) at the head of a
  text, \<open>0\<close> when there is none: the six ASCII ones, and in UTF-8 U+00A0, U+1680,
  U+2000 to U+200A, U+2028, U+2029, U+202F, U+205F, U+3000 and U+FEFF.
\<close>

fun space_len :: "string \<Rightarrow> nat" where
  "space_len [] = 0"
| "space_len (c # cs) =
     (if c = CHR 0x09 \<or> c = CHR 0x0A \<or> c = CHR 0x0B \<or> c = CHR 0x0C \<or> c = CHR 0x0D \<or> c = CHR 0x20
      then 1
      else if c = CHR 0xC2 then (if take 1 cs = [CHR 0xA0] then 2 else 0)
      else if c = CHR 0xE1 then (if take 2 cs = [CHR 0x9A, CHR 0x80] then 3 else 0)
      else if c = CHR 0xE2 then
        (if take 2 cs \<in> set (map (\<lambda>b. [CHR 0x80, b])
              [CHR 0x80, CHR 0x81, CHR 0x82, CHR 0x83, CHR 0x84, CHR 0x85, CHR 0x86, CHR 0x87,
               CHR 0x88, CHR 0x89, CHR 0x8A, CHR 0xA8, CHR 0xA9, CHR 0xAF])
            \<or> take 2 cs = [CHR 0x81, CHR 0x9F]
         then 3 else 0)
      else if c = CHR 0xE3 then (if take 2 cs = [CHR 0x80, CHR 0x80] then 3 else 0)
      else if c = CHR 0xEF then (if take 2 cs = [CHR 0xBB, CHR 0xBF] then 3 else 0)
      else 0)"

text \<open>
  The backtracking matcher, anchored at the head of the text. A greedy piece tries to
  take more before it lets the rest of the expression go on; a lazy piece lets the rest
  go on before it takes more. The result is the text that was left at each end of the
  group, on the first way through that succeeds.
\<close>

function rx_match :: "piece list \<Rightarrow> string \<Rightarrow> string list \<Rightarrow> string list option" where
  "rx_match [] s marks = Some marks"
| "rx_match (Lit l # ps) s marks =
     (if take (length l) s = l then rx_match ps (drop (length l) s) marks else None)"
| "rx_match (Spaces # ps) s marks =
     (if 0 < space_len s then
        (case rx_match (Spaces # ps) (drop (space_len s) s) marks of
           Some r \<Rightarrow> Some r
         | None \<Rightarrow> rx_match ps s marks)
      else rx_match ps s marks)"
| "rx_match (AnyLazy # ps) s marks =
     (case rx_match ps s marks of
        Some r \<Rightarrow> Some r
      | None \<Rightarrow> (case s of [] \<Rightarrow> None | c # cs \<Rightarrow> rx_match (AnyLazy # ps) cs marks))"
| "rx_match (Optional c # ps) s marks =
     (case s of
        [] \<Rightarrow> rx_match ps s marks
      | x # xs \<Rightarrow>
          if x = c then
            (case rx_match ps xs marks of Some r \<Rightarrow> Some r | None \<Rightarrow> rx_match ps s marks)
          else rx_match ps s marks)"
| "rx_match (GroupOpen # ps) s marks = rx_match ps s (marks @ [s])"
| "rx_match (GroupClose # ps) s marks = rx_match ps s (marks @ [s])"
  by pat_completeness auto
termination
proof (relation "measure (\<lambda>(ps, s, marks). 2 * length s + length ps)")
  fix ps :: "piece list" and s :: string and marks :: "string list"
  assume pos: "0 < space_len s"
  have "s \<noteq> []"
  proof
    assume "s = []"
    with pos show False by simp
  qed
  then have "0 < length s" by simp
  with pos show "((Spaces # ps, drop (space_len s) s, marks), Spaces # ps, s, marks)
          \<in> measure (\<lambda>(ps, s, marks). 2 * length s + length ps)"
    by simp
qed simp_all

declare rx_match.simps [simp del]

text \<open>\<^verbatim>\<open>re.exec(html)\<close>: the match that starts leftmost.\<close>

fun exec :: "piece list \<Rightarrow> string \<Rightarrow> string list option" where
  "exec re [] = rx_match re [] []"
| "exec re (c # cs) =
     (case rx_match re (c # cs) [] of Some r \<Rightarrow> Some r | None \<Rightarrow> exec re cs)"

text \<open>\<^verbatim>\<open>match[1]\<close>: the text between the two ends of the group.\<close>

definition group1 :: "string list \<Rightarrow> string" where
  "group1 marks =
     (case marks of
        [at_open, at_close] \<Rightarrow> take (length at_open - length at_close) at_open
      | _ \<Rightarrow> [])"

definition extractNuxtExpression :: "string \<Rightarrow> error + string" where
  "extractNuxtExpression html =
     (case exec NUXT_RE html of None \<Rightarrow> Inl NotFoundError | Some marks \<Rightarrow> Inr (group1 marks))"

section \<open>The sandboxed evaluator\<close>

text \<open>
  The virtual machine is the parameter \<open>vm\<close>: from the text of a script it answers the
  value thrown (\<open>Inl\<close>; a time-out is one) or the value that the script left in
  \<^verbatim>\<open>window.__NUXT__\<close> of the sandbox, \<^verbatim>\<open>undefined\<close> when it left none.
\<close>

definition evalNuxtExpression :: "(string \<Rightarrow> jsval + jsval) \<Rightarrow> string \<Rightarrow> error + jsval" where
  "evalNuxtExpression vm iifeExpr =
     (case vm (''window.__NUXT__ = '' @ iifeExpr @ '';'') of
        Inl thrown \<Rightarrow> Inl (SandboxError thrown)
      | Inr nuxt \<Rightarrow> if \<not> truthy nuxt then Inl NoResultError else Inr nuxt)"

section \<open>The pipeline\<close>

text \<open>\<^verbatim>\<open>data[0]\<close> on an array: its first element, \<^verbatim>\<open>undefined\<close> when it has none.\<close>

fun index0 :: "jsval \<Rightarrow> jsval" where
  "index0 (JArr (x # xs)) = x"
| "index0 v = JUndefined"

fun elements :: "jsval \<Rightarrow> jsval list" where
  "elements (JArr xs) = xs"
| "elements v = []"

definition generateRss_opts :: rss_opts where
  "generateRss_opts =
     \<lparr>title = Some (default_title @ ''(hotArticlesList)''),
      link = Some HOME_URL,
      description = Some
        ([CHR 0xE4, CHR 0xBB, CHR 0x8E, CHR 0xE8, CHR 0x99, CHR 0x8E, CHR 0xE5, CHR 0x97, CHR 0x85,
          CHR 0xE7, CHR 0xA7, CHR 0xBB, CHR 0xE5, CHR 0x8A, CHR 0xA8, CHR 0xE7, CHR 0xAB, CHR 0xAF,
          CHR 0xE9, CHR 0xA6, CHR 0x96, CHR 0xE9, CHR 0xA1, CHR 0xB5] @ '' __NUXT__ '' @
         [CHR 0xE4, CHR 0xB8, CHR 0xAD, CHR 0xE6, CHR 0x8F, CHR 0x90, CHR 0xE5, CHR 0x8F, CHR 0x96,
          CHR 0xE7, CHR 0x9A, CHR 0x84, CHR 0xE7, CHR 0x83, CHR 0xAD, CHR 0xE9, CHR 0x97, CHR 0xA8,
          CHR 0xE6, CHR 0x96, CHR 0x87, CHR 0xE7, CHR 0xAB, CHR 0xA0, CHR 0xE5, CHR 0x88, CHR 0x97,
          CHR 0xE8, CHR 0xA1, CHR 0xA8])\<rparr>"

text \<open>
  The part of \<^verbatim>\<open>generateRss\<close> that follows the evaluation: from the recovered state to
  the article list and to the feed.
\<close>

definition feedOfState :: "jsval \<Rightarrow> string \<Rightarrow> error + string" where
  "feedOfState nuxtData now =
     (let data = opt_chain nuxtData ''data'';
          first = (if isArray data then index0 data else JUndefined);
          hotArticlesList = opt_chain first ''hotArticlesList''
      in if \<not> isArray hotArticlesList then Inl StructureError
         else Inr (buildRssFromHotArticles (elements hotArticlesList) generateRss_opts now))"

definition generateRss ::
  "nat \<Rightarrow> platform \<Rightarrow> (string \<Rightarrow> jsnum) \<Rightarrow> (string \<rightharpoonup> string) \<Rightarrow> (nat \<Rightarrow> real) \<Rightarrow>
   (string \<Rightarrow> 'w \<Rightarrow> (string + response) \<times> 'w) \<Rightarrow> (string \<Rightarrow> jsval + jsval) \<Rightarrow> string \<Rightarrow> 'w \<Rightarrow>
   ((error + string) \<times> 'w) option" where
  "generateRss fuel P toNumber env random fetch vm now w =
     (case fetchHtmlWithRetry fuel P toNumber env random fetch HOME_URL w of
        None \<Rightarrow> None
      | Some (Inl None, w', journal) \<Rightarrow> Some (Inl ThrownUnset, w')
      | Some (Inl (Some err), w', journal) \<Rightarrow> Some (Inl err, w')
      | Some (Inr html, w', journal) \<Rightarrow>
          (case extractNuxtExpression html of
             Inl err \<Rightarrow> Some (Inl err, w')
           | Inr iifeExpr \<Rightarrow>
               (case evalNuxtExpression vm iifeExpr of
                  Inl err \<Rightarrow> Some (Inl err, w')
                | Inr nuxtData \<Rightarrow> Some (feedOfState nuxtData now, w'))))"

section \<open>Vocabulary of the statements\<close>

text \<open>
  A text is safe as XML character data or as an attribute value when it contains none of
  \<^verbatim>\<open><\<close>, \<^verbatim>\<open>>\<close>, the double quote and the apostrophe, and each \<^verbatim>\<open>&\<close> in it starts one of
  the five entity references that the escaper produces.
\<close>

definition entity_follows :: "string \<Rightarrow> bool" where
  "entity_follows cs =
     (take 4 cs = ''amp;'' \<or> take 3 cs = ''lt;'' \<or> take 3 cs = ''gt;'' \<or>
      take 5 cs = ''quot;'' \<or> take 5 cs = ''apos;'')"

fun xml_safe :: "string \<Rightarrow> bool" where
  "xml_safe [] = True"
| \<open>xml_safe (c # cs) =
     (if c = CHR ''&'' then entity_follows cs \<and> xml_safe cs
      else c \<noteq> CHR ''<'' \<and> c \<noteq> CHR ''>'' \<and> c \<noteq> CHR ''"'' \<and> c \<noteq> CHR 0x27 \<and> xml_safe cs)\<close>

text \<open>What the five passes of the escaper make of one character.\<close>

definition esc_char :: "char \<Rightarrow> string" where
  \<open>esc_char c =
     (if c = CHR ''&'' then ''&amp;'' else if c = CHR ''<'' then ''&lt;''
      else if c = CHR ''>'' then ''&gt;'' else if c = CHR ''"'' then ''&quot;''
      else if c = CHR 0x27 then ''&apos;'' else [c])\<close>

text \<open>
  A lexer for the XML that the script writes, strict on the five characters. It reads
  character by character, in one of four modes, and cuts the text into element content
  (\<open>Text\<close>), tags with their attributes (\<open>Tag\<close>, the text between \<^verbatim>\<open><\<close> and \<^verbatim>\<open>>\<close>) and
  CDATA sections. In element content \<^verbatim>\<open><\<close> opens a tag or a CDATA section, and \<^verbatim>\<open>>\<close>,
  a quote, an apostrophe or an \<^verbatim>\<open>&\<close> that starts no entity reference is an error; in a
  tag a double quote opens an attribute value, which the next double quote closes, and
  inside which \<^verbatim>\<open><\<close>, \<^verbatim>\<open>>\<close>, an apostrophe or an \<^verbatim>\<open>&\<close> that starts no entity reference is
  an error; a CDATA section ends at the first \<^verbatim>\<open>]]>\<close>. The result is \<open>None\<close> on an error
  and on a text that ends inside a tag or a section.
\<close>

datatype token = Text string | Tag string | CData string

datatype mode = InText | InTag | InQuote | InCData | Skip nat mode

fun lex :: "mode \<Rightarrow> string \<Rightarrow> string \<Rightarrow> token list option" where
  "lex InText acc [] = Some [Text acc]"
| \<open>lex InText acc (c # cs) =
     (if c = CHR ''<'' then
        map_option ((#) (Text acc))
          (if take 8 cs = ''![CDATA['' then lex (Skip 8 InCData) [] cs else lex InTag [] cs)
      else if c = CHR ''>'' \<or> c = CHR ''"'' \<or> c = CHR 0x27 then None
      else if c = CHR ''&'' \<and> \<not> entity_follows cs then None
      else lex InText (acc @ [c]) cs)\<close>
| "lex InTag acc [] = None"
| \<open>lex InTag acc (c # cs) =
     (if c = CHR ''>'' then map_option ((#) (Tag acc)) (lex InText [] cs)
      else if c = CHR ''<'' then None
      else if c = CHR ''"'' then lex InQuote (acc @ [c]) cs
      else lex InTag (acc @ [c]) cs)\<close>
| "lex InQuote acc [] = None"
| \<open>lex InQuote acc (c # cs) =
     (if c = CHR ''"'' then lex InTag (acc @ [c]) cs
      else if c = CHR ''<'' \<or> c = CHR ''>'' \<or> c = CHR 0x27 then None
      else if c = CHR ''&'' \<and> \<not> entity_follows cs then None
      else lex InQuote (acc @ [c]) cs)\<close>
| "lex InCData acc [] = None"
| "lex InCData acc (c # cs) =
     (if take 3 (c # cs) = '']]>'' then map_option ((#) (CData acc)) (lex (Skip 2 InText) [] cs)
      else lex InCData (acc @ [c]) cs)"
| "lex (Skip 0 m) acc cs = lex m acc cs"
| "lex (Skip (Suc n) m) acc [] = None"
| "lex (Skip (Suc n) m) acc (c # cs) = lex (Skip n m) acc cs"

text \<open>
  The tokens expected of one item, after the element content \<open>lead\<close> that precedes it; of
  the items after the first; of a list of items between two pieces of element content;
  and of the whole document.
\<close>

definition author_tokens :: "jsval \<Rightarrow> token list" where
  "author_tokens a =
     (if author a = [] then [Tag ''author /'']
      else [Tag ''author'', Text (author a), Tag ''/author''])"

definition enclosure_tokens :: "jsval \<Rightarrow> token list" where
  \<open>enclosure_tokens a =
     (if truthy (picPath a)
      then [Text ([CHR 0x0A] @ ''      ''),
            Tag (''enclosure url="'' @ escapeXml (picPath a) @ ''" type="image/jpeg" /'')]
      else [])\<close>

definition item_tokens :: "string \<Rightarrow> jsval \<Rightarrow> token list" where
  \<open>item_tokens lead a =
     [Text (lead @ ''    ''), Tag ''item'',
      Text ([CHR 0x0A] @ ''      ''), Tag ''title'', Text (itemTitle a), Tag ''/title'',
      Text ([CHR 0x0A] @ ''      ''), Tag ''link'', Text (itemLink a), Tag ''/link'',
      Text ([CHR 0x0A] @ ''      ''), Tag (''guid isPermaLink="'' @ isPermaLink a @ ''"''),
      Text (guid a), Tag ''/guid'',
      Text ([CHR 0x0A] @ ''      '')] @
     author_tokens a @
     [Text ([CHR 0x0A] @ ''      ''), Tag ''description'', Text [], CData (descText a), Text [],
      Tag ''/description''] @
     enclosure_tokens a @
     [Text ([CHR 0x0A] @ ''    ''), Tag ''/item'']\<close>

fun rest_tokens :: "jsval list \<Rightarrow> token list" where
  "rest_tokens [] = []"
| "rest_tokens (a # as) = item_tokens [CHR 0x0A] a @ rest_tokens as"

definition items_tokens :: "string \<Rightarrow> jsval list \<Rightarrow> string \<Rightarrow> token list" where
  "items_tokens before hotArticlesList after =
     (case hotArticlesList of
        [] \<Rightarrow> [Text (before @ after)]
      | a # as \<Rightarrow> item_tokens before a @ rest_tokens as @ [Text after])"

definition document_tokens :: "jsval list \<Rightarrow> rss_opts \<Rightarrow> string \<Rightarrow> token list" where
  \<open>document_tokens hotArticlesList opts now =
     [Text [], Tag ''?xml version="1.0" encoding="UTF-8"?'',
      Text [CHR 0x0A], Tag ''rss version="2.0"'',
      Text ([CHR 0x0A] @ ''  ''), Tag ''channel'',
      Text ([CHR 0x0A] @ ''    ''), Tag ''title'',
      Text (escapeXml (JStr (case title opts of Some t \<Rightarrow> t | None \<Rightarrow> default_title))),
      Tag ''/title'',
      Text ([CHR 0x0A] @ ''    ''), Tag ''link'',
      Text (escapeXml (JStr (case link opts of Some l \<Rightarrow> l | None \<Rightarrow> HOME_URL))),
      Tag ''/link'',
      Text ([CHR 0x0A] @ ''    ''), Tag ''description'',
      Text (escapeXml (JStr (case description opts of Some d \<Rightarrow> d | None \<Rightarrow> default_description))),
      Tag ''/description'',
      Text ([CHR 0x0A] @ ''    ''), Tag ''lastBuildDate'', Text now, Tag ''/lastBuildDate''] @
     items_tokens [CHR 0x0A] hotArticlesList ([CHR 0x0A] @ ''  '') @
     [Tag ''/channel'', Text [CHR 0x0A], Tag ''/rss'', Text [CHR 0x0A]]\<close>

text \<open>The article records used as concrete inputs.\<close>

definition sample_article :: jsval where
  "sample_article =
     JObj [(''title'', JStr ''A & B''), (''url'', JStr ''https://x/1''),
           (''user_info'', JObj [(''username'', JStr ''<me>'')]), (''is_original'', JBool True)]"

definition query_article :: jsval where
  "query_article = JObj [(''url'', JStr ''https://x/?a=1&b=2'')]"

definition markup_article :: jsval where
  \<open>markup_article =
     JObj [(''title'', JStr ''<b>"Q&A"</b>''), (''url'', JStr ''https://x/?a=1&b=<2>''),
           (''aid'', JNum 42), (''pic_path'', JStr ''https://img/"p".jpg''),
           (''user_info'', JObj [(''username'', JStr (''O'' @ [CHR 0x27] @ ''Neil & <co>''))])]\<close>

definition sample_now :: string where
  "sample_now = ''Tue, 03 Nov 2026 13:31:00 GMT''"

text \<open>
  Operations used as concrete inputs: \<open>flaky k\<close>, whose state is the number of its
  invocations so far, fails on its first \<open>k\<close> invocations, each time with a failure of
  its own, and succeeds from then on; \<open>always_ok\<close> succeeds at once. \<open>exact_arithmetic\<close>
  is the arithmetic of the machine where it does not round: it is used at products and
  sums that are doubles themselves. \<open>effective_attempts\<close> is the local \<^verbatim>\<open>attempts\<close> of
  \<^verbatim>\<open>withRetry\<close>.
\<close>

definition flaky :: "nat \<Rightarrow> nat \<Rightarrow> (string + string) \<times> nat" where
  "flaky k i = (if i < k then Inl (''failure'' @ replicate (Suc i) (CHR ''!'')) else Inr ''<html>'', Suc i)"

definition always_ok :: "unit \<Rightarrow> (string + string) \<times> unit" where
  "always_ok u = (Inr ''<html>'', u)"

definition exact_arithmetic :: platform where
  "exact_arithmetic =
     \<lparr>Math_pow2 = (\<lambda>i. Finite (power_int 2 i)),
      times = (\<lambda>a b. case (a, b) of (Finite x, Finite y) \<Rightarrow> Finite (x * y) | _ \<Rightarrow> NaN),
      plus = (\<lambda>a b. case (a, b) of (Finite x, Finite y) \<Rightarrow> Finite (x + y) | _ \<Rightarrow> NaN)\<rparr>"

definition effective_attempts :: "jsnum option \<Rightarrow> jsnum" where
  "effective_attempts limit = Math_max (Finite 1) (case limit of Some m \<Rightarrow> m | None \<Rightarrow> Finite 1)"

text \<open>
  The rule of a configuration override: the effective value is the default when the
  variable is unset, when it is empty and when its text converts to no finite number;
  it is the converted number in every other case.
\<close>

definition override_rule ::
  "(string \<Rightarrow> jsnum) \<Rightarrow> (string \<rightharpoonup> string) \<Rightarrow> string \<Rightarrow> real \<Rightarrow> real \<Rightarrow> bool" where
  "override_rule toNumber env name dflt effective =
     ((env name = None \<longrightarrow> effective = dflt) \<and>
      (env name = Some [] \<longrightarrow> effective = dflt) \<and>
      (\<forall>raw. env name = Some raw \<and> (\<forall>x. toNumber raw \<noteq> Finite x) \<longrightarrow> effective = dflt) \<and>
      (\<forall>raw x. env name = Some raw \<and> raw \<noteq> [] \<and> toNumber raw = Finite x \<longrightarrow> effective = x))"

definition sample_env :: "string \<rightharpoonup> string" where
  "sample_env =
     [''FETCH_RETRY_MAX'' \<mapsto> ''-5'', ''FETCH_RETRY_BASE_DELAY_MS'' \<mapsto> ''soon'',
      ''FETCH_RETRY_MAX_DELAY_MS'' \<mapsto> '''']"

text \<open>
  The page fragment of the extractor's test, the expression in it, the state that
  JavaScript gives this expression, a virtual machine that knows this one script, one
  that leaves \<^verbatim>\<open>false\<close> in the property whatever the script, and a network that
  answers every request with a page holding the fragment.
\<close>

definition sample :: string where
  "sample = ''window.__NUXT__ = (function(a,b){return {data:[{hotArticlesList:[]}]}}(1,2));''"

definition sample_expr :: string where
  "sample_expr = ''(function(a,b){return {data:[{hotArticlesList:[]}]}}(1,2))''"

definition sample_state :: jsval where
  "sample_state = JObj [(''data'', JArr [JObj [(''hotArticlesList'', JArr [])]])]"

definition sample_vm :: "string \<Rightarrow> jsval + jsval" where
  "sample_vm script =
     (if script = ''window.__NUXT__ = '' @ sample_expr @ '';'' then Inr sample_state
      else Inl (JStr ''SyntaxError''))"

definition falsy_vm :: "string \<Rightarrow> jsval + jsval" where
  "falsy_vm script = Inr (JBool False)"

definition sample_fetch :: "string \<Rightarrow> nat \<Rightarrow> (string + response) \<times> nat" where
  "sample_fetch url w =
     (Inr \<lparr>res_ok = True, res_status = 200, res_statusText = ''OK'',
           res_text = Inr (''<script>'' @ sample @ ''</script>'')\<rparr>, Suc w)"

section \<open>Properties of the escaper\<close>

lemma replaceAll_Nil: "replaceAll c r [] = []"
  by (simp add: replaceAll_def)

lemma replaceAll_Cons: "replaceAll c r (x # xs) = (if x = c then r else [x]) @ replaceAll c r xs"
  by (simp add: replaceAll_def)

lemma replaceAll_append: "replaceAll c r (xs @ ys) = replaceAll c r xs @ replaceAll c r ys"
  by (simp add: replaceAll_def)

lemma escapeXml_JStr_Nil: "escapeXml (JStr []) = []"
  by (simp add: escapeXml_def replaceAll_Nil)

text \<open>The five passes, run one after the other, act on each character on its own.\<close>

lemma escapeXml_JStr_Cons: "escapeXml (JStr (x # xs)) = esc_char x @ escapeXml (JStr xs)"
  by (simp add: escapeXml_def esc_char_def replaceAll_Cons replaceAll_append replaceAll_Nil)

lemma escapeXml_text: "escapeXml v = escapeXml (JStr (String_js (nullish_or v (JStr ''''))))"
  by (simp add: escapeXml_def)

lemma xml_safe_esc_char: "xml_safe rest \<Longrightarrow> xml_safe (esc_char x @ rest)"
  by (simp add: esc_char_def entity_follows_def)

lemma xml_safe_escape_text: "xml_safe (escapeXml (JStr s))"
  by (induction s) (simp_all add: escapeXml_JStr_Nil escapeXml_JStr_Cons xml_safe_esc_char)

lemma xml_safe_escapeXml: "xml_safe (escapeXml v)"
  by (subst escapeXml_text) (rule xml_safe_escape_text)

lemma escapeXml_empty_iff: "escapeXml (JStr s) = [] \<longleftrightarrow> s = []"
  by (cases s) (simp_all add: escapeXml_JStr_Nil escapeXml_JStr_Cons esc_char_def)

section \<open>Properties of the feed transformer\<close>

lemma buildItem_shape:
  \<open>buildItem a =
     ''    <item>'' @ [CHR 0x0A] @
     ''      <title>'' @ escapeXml (nullish_or (opt_chain a ''title'') (JStr '''')) @ ''</title>'' @
     [CHR 0x0A] @
     ''      <link>'' @ escapeXml (nullish_or (opt_chain a ''url'') (JStr '''')) @ ''</link>'' @
     [CHR 0x0A] @
     ''      <guid isPermaLink="'' @ isPermaLink a @ ''">'' @ escapeXml (JStr (guidRaw a)) @
     ''</guid>'' @ [CHR 0x0A] @
     ''      '' @
       (if author a = [] then ''<author />''
        else ''<author>'' @
             escapeXml (nullish_or (opt_chain (opt_chain a ''user_info'') ''username'') (JStr '''')) @
             ''</author>'') @
     [CHR 0x0A] @
     ''      <description><![CDATA['' @ descText a @ '']]></description>'' @
       (if truthy (opt_chain a ''pic_path'')
        then [CHR 0x0A] @ ''      <enclosure url="'' @ escapeXml (opt_chain a ''pic_path'') @
             ''" type="image/jpeg" />''
        else []) @
     [CHR 0x0A] @
     ''    </item>''\<close>
  by (simp add: buildItem_def itemTitle_def itemLink_def guid_def authorTag_def author_def
      userInfo_def enclosure_def picPath_def)

lemma buildRss_shape:
  \<open>buildRssFromHotArticles hotArticlesList opts now =
     ''<?xml version="1.0" encoding="UTF-8"?>'' @ [CHR 0x0A] @
     ''<rss version="2.0">'' @ [CHR 0x0A] @
     ''  <channel>'' @ [CHR 0x0A] @
     ''    <title>'' @
       escapeXml (JStr (case title opts of Some t \<Rightarrow> t | None \<Rightarrow> default_title)) @
     ''</title>'' @ [CHR 0x0A] @
     ''    <link>'' @
       escapeXml (JStr (case link opts of Some l \<Rightarrow> l | None \<Rightarrow> HOME_URL)) @
     ''</link>'' @ [CHR 0x0A] @
     ''    <description>'' @
       escapeXml (JStr (case description opts of Some d \<Rightarrow> d | None \<Rightarrow> default_description)) @
     ''</description>'' @ [CHR 0x0A] @
     ''    <lastBuildDate>'' @ now @ ''</lastBuildDate>'' @ [CHR 0x0A] @
     join [CHR 0x0A] (map buildItem hotArticlesList) @ [CHR 0x0A] @
     ''  </channel>'' @ [CHR 0x0A] @
     ''</rss>'' @ [CHR 0x0A]\<close>
  by (simp add: buildRssFromHotArticles_def items_def)

text \<open>Facts on the guid that hold for every record.\<close>

lemma nullish_or_twice: "nullish_or (nullish_or v (JStr s)) (JStr s) = nullish_or v (JStr s)"
  by (cases v) simp_all

lemma isPermaLink_true_iff:
  "isPermaLink a = ''true'' \<longleftrightarrow> String_js (nullish_or (opt_chain a ''url'') (JStr '''')) \<noteq> []"
proof -
  have "itemLink a = escapeXml (JStr (String_js (nullish_or (opt_chain a ''url'') (JStr ''''))))"
    by (simp add: itemLink_def escapeXml_def nullish_or_twice)
  then show ?thesis
    by (simp add: isPermaLink_def escapeXml_empty_iff)
qed

lemma guid_of_link: "itemLink a \<noteq> [] \<Longrightarrow> guid a = escapeXml (JStr (itemLink a))"
  by (simp add: guid_def guidRaw_def)

lemma guid_of_aid:
  "itemLink a = [] \<Longrightarrow>
   guid a = escapeXml (JStr (String_js (nullish_or (opt_chain a ''aid'') (JStr '''')))) \<and>
   isPermaLink a = ''false''"
  by (simp add: guid_def guidRaw_def isPermaLink_def)

lemma guid_without_url_and_aid:
  assumes "opt_chain a ''url'' = JUndefined" and "opt_chain a ''aid'' = JUndefined"
  shows "guid a = [] \<and> isPermaLink a = ''false''"
proof -
  from assms(1) have "itemLink a = []"
    by (simp add: itemLink_def escapeXml_JStr_Nil)
  with assms(2) show ?thesis
    by (simp add: guid_of_aid escapeXml_JStr_Nil)
qed

section \<open>Properties of the lexer and of the document\<close>

declare xml_safe_escapeXml [simp]

lemma take_append_prefix:
  assumes "take n t = e" and "length e = n"
  shows "take n (t @ r) = e"
proof -
  from assms have "length (take n t) = n" by simp
  then have "n \<le> length t" by simp
  with assms(1) show ?thesis by simp
qed

lemma entity_follows_append:
  assumes "entity_follows t"
  shows "entity_follows (t @ r)"
proof -
  from assms consider "take 4 t = ''amp;''" | "take 3 t = ''lt;''" | "take 3 t = ''gt;''"
    | "take 5 t = ''quot;''" | "take 5 t = ''apos;''"
    unfolding entity_follows_def by blast
  then show ?thesis
  proof cases
    case 1
    then have "take 4 (t @ r) = ''amp;''" by (rule take_append_prefix) simp
    then show ?thesis unfolding entity_follows_def by blast
  next
    case 2
    then have "take 3 (t @ r) = ''lt;''" by (rule take_append_prefix) simp
    then show ?thesis unfolding entity_follows_def by blast
  next
    case 3
    then have "take 3 (t @ r) = ''gt;''" by (rule take_append_prefix) simp
    then show ?thesis unfolding entity_follows_def by blast
  next
    case 4
    then have "take 5 (t @ r) = ''quot;''" by (rule take_append_prefix) simp
    then show ?thesis unfolding entity_follows_def by blast
  next
    case 5
    then have "take 5 (t @ r) = ''apos;''" by (rule take_append_prefix) simp
    then show ?thesis unfolding entity_follows_def by blast
  qed
qed

lemma lex_skip2 [simp]: "lex (Skip 2 m) acc (a # b # cs) = lex m acc cs"
  by (simp add: numeral_2_eq_2)

lemma lex_skip8 [simp]:
  "lex (Skip 8 m) acc (c1 # c2 # c3 # c4 # c5 # c6 # c7 # c8 # cs) = lex m acc cs"
  by (simp add: numeral_eq_Suc)

lemma lex_text_safe:
  "xml_safe t \<Longrightarrow> lex InText acc (t @ r) = lex InText (acc @ t) r"
proof (induction t arbitrary: acc)
  case Nil
  then show ?case by simp
next
  case (Cons c t)
  from Cons.prems have safe: "xml_safe t"
    by (simp split: if_splits)
  from Cons.prems have ok: "c \<noteq> CHR ''<''" \<open>c \<noteq> CHR ''>''\<close> \<open>c \<noteq> CHR ''"''\<close> "c \<noteq> CHR 0x27"
    "c = CHR ''&'' \<longrightarrow> entity_follows (t @ r)"
    by (auto split: if_splits intro: entity_follows_append)
  from ok Cons.IH [OF safe, of "acc @ [c]"] show ?case by auto
qed

lemma lex_quote_safe:
  "xml_safe t \<Longrightarrow> lex InQuote acc (t @ r) = lex InQuote (acc @ t) r"
proof (induction t arbitrary: acc)
  case Nil
  then show ?case by simp
next
  case (Cons c t)
  from Cons.prems have safe: "xml_safe t"
    by (simp split: if_splits)
  from Cons.prems have ok: "c \<noteq> CHR ''<''" \<open>c \<noteq> CHR ''>''\<close> \<open>c \<noteq> CHR ''"''\<close> "c \<noteq> CHR 0x27"
    "c = CHR ''&'' \<longrightarrow> entity_follows (t @ r)"
    by (auto split: if_splits intro: entity_follows_append)
  from ok Cons.IH [OF safe, of "acc @ [c]"] show ?case by auto
qed

lemma lex_cdata_body:
  "CHR ''>'' \<notin> set t \<Longrightarrow>
   lex InCData acc (t @ CHR '']'' # CHR '']'' # CHR ''>'' # r)
     = map_option ((#) (CData (acc @ t))) (lex InText [] r)"
proof (induction t arbitrary: acc)
  case Nil
  then show ?case by simp
next
  case (Cons c t)
  have ne: "take 3 (c # t @ CHR '']'' # CHR '']'' # CHR ''>'' # r) \<noteq> '']]>''"
  proof (cases t)
    case Nil
    then show ?thesis by simp
  next
    case (Cons x t')
    with Cons.prems show ?thesis by (cases t') auto
  qed
  have "lex InCData acc ((c # t) @ CHR '']'' # CHR '']'' # CHR ''>'' # r)
          = lex InCData (acc @ [c]) (t @ CHR '']'' # CHR '']'' # CHR ''>'' # r)"
    using ne by (simp only: append_Cons lex.simps if_False)
  also have "\<dots> = map_option ((#) (CData ((acc @ [c]) @ t))) (lex InText [] r)"
    using Cons.prems by (intro Cons.IH) simp
  finally show ?case by simp
qed

lemma xml_safe_fields [simp]:
  "xml_safe (itemTitle a)" "xml_safe (itemLink a)" "xml_safe (guid a)" "xml_safe (author a)"
  by (simp_all add: itemTitle_def itemLink_def guid_def author_def)

lemma xml_safe_no_markup:
  "xml_safe t \<Longrightarrow> CHR ''<'' \<notin> set t \<and> CHR ''>'' \<notin> set t"
  by (induction t) (auto split: if_splits)

lemma join_no_char:
  "c \<notin> set sep \<Longrightarrow> \<forall>x\<in>set xs. c \<notin> set x \<Longrightarrow> c \<notin> set (join sep xs)"
  by (induction sep xs rule: join.induct) auto

lemma descText_no_gt: "CHR ''>'' \<notin> set (descText a)"
proof -
  have "CHR ''>'' \<notin> set (author a)"
    using xml_safe_no_markup [of "author a"] by simp
  then have "\<forall>x\<in>set (descParts a). CHR ''>'' \<notin> set x"
    by (auto simp: descParts_def text_original_def text_video_def text_author_def)
  then show ?thesis
    unfolding descText_def by (intro join_no_char) simp_all
qed

lemma lex_item:
  "lex InText acc (buildItem a @ r) = map_option ((@) (item_tokens acc a)) (lex InText [] r)"
proof -
  note rules = buildItem_def item_tokens_def author_tokens_def enclosure_tokens_def authorTag_def
    enclosure_def isPermaLink_def lex_text_safe lex_quote_safe lex_cdata_body descText_no_gt
  show ?thesis
  proof (cases "lex InText [] r")
    case None
    then show ?thesis
      by (cases "author a = []"; cases "truthy (picPath a)"; cases "itemLink a = []")
         (simp_all add: rules)
  next
    case (Some toks)
    then show ?thesis
      by (cases "author a = []"; cases "truthy (picPath a)"; cases "itemLink a = []")
         (simp_all add: rules)
  qed
qed


lemma lex_more_items:
  "lex InText acc (join [CHR 0x0A] (map buildItem (a # as)) @ r)
     = map_option ((@) (item_tokens acc a @ rest_tokens as)) (lex InText [] r)"
proof (induction as arbitrary: a acc)
  case Nil
  then show ?case by (simp add: lex_item)
next
  case (Cons b bs)
  have "lex InText acc (join [CHR 0x0A] (map buildItem (a # b # bs)) @ r)
          = lex InText acc (buildItem a @ CHR 0x0A # join [CHR 0x0A] (map buildItem (b # bs)) @ r)"
    by simp
  also have "\<dots> = map_option ((@) (item_tokens acc a))
                      (lex InText [] (CHR 0x0A # join [CHR 0x0A] (map buildItem (b # bs)) @ r))"
    by (rule lex_item)
  also have "lex InText [] (CHR 0x0A # join [CHR 0x0A] (map buildItem (b # bs)) @ r)
               = lex InText [CHR 0x0A] (join [CHR 0x0A] (map buildItem (b # bs)) @ r)"
    by simp
  also have "\<dots> = map_option ((@) (item_tokens [CHR 0x0A] b @ rest_tokens bs)) (lex InText [] r)"
    by (rule Cons.IH)
  finally show ?case
    by (cases "lex InText [] r") simp_all
qed

lemma lex_more_items' [simp]:
  "lex InText acc (join [CHR 0x0A] (buildItem a # map buildItem as) @ r)
     = map_option ((@) (item_tokens acc a @ rest_tokens as)) (lex InText [] r)"
  using lex_more_items [of acc a as r] by simp

text \<open>
  Claim C1. Whatever the article list, the items lex, under the strict lexer, into
  exactly the expected tokens: the tags of the template, and as element content and as
  attribute values the title, the url, the guid text, the user name and the picture path
  as \<open>escapeXml\<close> returns them (\<open>itemTitle\<close>, \<open>itemLink\<close>, \<open>guid\<close>, \<open>author\<close>,
  \<open>escapeXml (picPath a)\<close>). So no \<^verbatim>\<open><\<close>, \<^verbatim>\<open>>\<close>, quote or apostrophe of a field, and no
  \<^verbatim>\<open>&\<close> of a field that starts no entity reference, stands in element content or in an
  attribute value, none opens or closes a tag, and the description never leaves its CDATA
  section. The same holds of the whole document when the text of the build time is free of
  these characters, as a date is.
\<close>

theorem field_values_escaped_outside_cdata:
  "lex InText [] (items hotArticlesList) = Some (items_tokens [] hotArticlesList [])
   \<and> (xml_safe now \<longrightarrow>
        lex InText [] (buildRssFromHotArticles hotArticlesList opts now)
          = Some (document_tokens hotArticlesList opts now))"
proof (intro conjI impI)
  show "lex InText [] (items hotArticlesList) = Some (items_tokens [] hotArticlesList [])"
  proof (cases hotArticlesList)
    case Nil
    then show ?thesis by (simp add: items_def items_tokens_def)
  next
    case (Cons a as)
    have "lex InText [] (join [CHR 0x0A] (buildItem a # map buildItem as) @ [])
            = Some (item_tokens [] a @ rest_tokens as @ [Text []])"
      by (simp only: lex_more_items') simp
    with Cons show ?thesis by (simp add: items_def items_tokens_def)
  qed
next
  assume now: "xml_safe now"
  show "lex InText [] (buildRssFromHotArticles hotArticlesList opts now)
          = Some (document_tokens hotArticlesList opts now)"
  proof (cases hotArticlesList)
    case Nil
    with now show ?thesis
      by (simp add: buildRssFromHotArticles_def document_tokens_def items_def items_tokens_def
          lex_text_safe)
  next
    case (Cons a as)
    with now show ?thesis
      by (simp add: buildRssFromHotArticles_def document_tokens_def items_def items_tokens_def
          lex_text_safe)
  qed
qed

theorem field_values_escaped_outside_cdata_witness:
  "xml_safe sample_now
   \<and> lex InText [] (buildRssFromHotArticles [markup_article, sample_article] generateRss_opts
        sample_now)
       = Some (document_tokens [markup_article, sample_article] generateRss_opts sample_now)"
proof
  show safe: "xml_safe sample_now"
    by (simp add: sample_now_def)
  show "lex InText [] (buildRssFromHotArticles [markup_article, sample_article] generateRss_opts
        sample_now)
       = Some (document_tokens [markup_article, sample_article] generateRss_opts sample_now)"
    by (rule field_values_escaped_outside_cdata [THEN conjunct2, THEN mp, OF safe])
qed

text \<open>The lexer refuses a raw character in element content and a second end of a section.\<close>

lemma lex_refuses_raw_text: "lex InText [] ''<title>A & B</title>'' = None"
  by (simp add: entity_follows_def)

lemma lex_refuses_tag_in_text: "lex InText [] ''<title>a <b> c</title>'' \<noteq> Some [Text [], Tag ''title'', Text ''a <b> c'', Tag ''/title'', Text []]"
  by simp

lemma lex_refuses_cdata_breakout: "lex InText [] ''<d><![CDATA[x]]>y]]></d>'' = None"
  by simp

text \<open>
  Claim C2, as the code has it. For the list of the one record
  \<^verbatim>\<open>{title:"A & B", url:"https://x/1", user_info:{username:"<me>"}, is_original:true}\<close>
  the item has the title \<^verbatim>\<open>A &amp; B\<close>, a guid with \<^verbatim>\<open>isPermaLink="true"\<close> whose content is
  the escaped url, no enclosure, and a description whose CDATA content is the marker of an
  original article, \<^verbatim>\<open> | \<close>, the author marker and the user name escaped,
  \<^verbatim>\<open>&lt;me&gt;\<close>: the name is escaped once, before it is used in the author element and
  in the description.
\<close>

theorem sample_item:
  \<open>items [sample_article] =
     ''    <item>'' @ [CHR 0x0A] @
     ''      <title>A &amp; B</title>'' @ [CHR 0x0A] @
     ''      <link>https://x/1</link>'' @ [CHR 0x0A] @
     ''      <guid isPermaLink="true">https://x/1</guid>'' @ [CHR 0x0A] @
     ''      <author>&lt;me&gt;</author>'' @ [CHR 0x0A] @
     ''      <description><![CDATA['' @ text_original @ '' | '' @ text_author @
     ''&lt;me&gt;]]></description>'' @ [CHR 0x0A] @
     ''    </item>''
   \<and> itemTitle sample_article = ''A &amp; B''
   \<and> isPermaLink sample_article = ''true''
   \<and> guid sample_article = escapeXml (opt_chain sample_article ''url'')
   \<and> descText sample_article = text_original @ '' | '' @ text_author @ ''&lt;me&gt;''
   \<and> enclosure sample_article = []\<close>
  by (simp add: items_def sample_article_def buildItem_def itemTitle_def itemLink_def guid_def
      guidRaw_def isPermaLink_def authorTag_def author_def userInfo_def enclosure_def picPath_def
      descText_def descParts_def isOriginal_def isVideo_def escapeXml_def replaceAll_def)

text \<open>
  The description of that item is not the text with the user name left as \<^verbatim>\<open><me>\<close>.
\<close>

theorem sample_description_counterexample:
  \<open>descText sample_article \<noteq> text_original @ '' | '' @ text_author @ ''<me>''\<close>
  by (simp add: sample_article_def author_def userInfo_def descText_def descParts_def
      isOriginal_def isVideo_def escapeXml_def replaceAll_def text_original_def text_author_def)

text \<open>
  Claim C3 at the record \<^verbatim>\<open>{url:"https://x/?a=1&b=2"}\<close>: the link is the url escaped,
  \<^verbatim>\<open>https://x/?a=1&amp;b=2\<close>, and the guid, declared a permalink, is that text escaped
  once more, \<^verbatim>\<open>https://x/?a=1&amp;amp;b=2\<close>: \<open>guidRaw\<close> takes the link that is already
  escaped, and \<open>guid\<close> escapes it again.
\<close>

theorem guid_escaped_twice:
  "itemLink query_article = ''https://x/?a=1&amp;b=2''
   \<and> escapeXml (opt_chain query_article ''url'') = ''https://x/?a=1&amp;b=2''
   \<and> guid query_article = ''https://x/?a=1&amp;amp;b=2''
   \<and> isPermaLink query_article = ''true''"
  by (simp add: query_article_def guid_def guidRaw_def itemLink_def isPermaLink_def escapeXml_def
      replaceAll_def)

section \<open>Properties of the retrying fetcher\<close>

lemma counting_apply: "counting fn (s, n) = (fst (fn s), (snd (fn s), Suc n))"
  by (simp add: counting_def split: prod.splits)

lemma state_after_counting:
  "state_after (counting fn) (s, n) i = (state_after fn s i, n + i)"
  by (induction i arbitrary: s n) (simp_all add: counting_apply)

lemma outcome_counting: "outcome (counting fn) (s, n) i = outcome fn s i"
  by (induction i arbitrary: s n) (simp_all add: counting_apply)

lemma next_attempt_le: "next_attempt a \<le> Suc a"
  by (simp add: next_attempt_def)


lemma loop_succeeds:
  assumes "\<forall>i<k. isl (outcome fn s i) \<and> describe (projl (outcome fn s i)) = None"
    and "outcome fn s k = Inr v"
    and "\<forall>c\<le>a + k. num_le (real c) attempts"
    and "\<forall>c<a + k. \<not> num_ge (real c) attempts"
    and "k < fuel"
  shows "\<exists>journal'. withRetry_loop fuel fn describe P base maxDelay random opLabel attempts a le s
           journal = Some (Inr v, state_after fn s (Suc k), journal')"
  using assms
proof (induction k arbitrary: a le s journal fuel)
  case 0
  then obtain fuel' where fuel: "fuel = Suc fuel'" by (cases fuel) auto
  from 0 obtain s' where "fn s = (Inr v, s')"
    by (cases "fn s") auto
  with 0 show ?case
    unfolding fuel by (simp add: withRetry_loop.simps(2))
next
  case (Suc k)
  then obtain fuel' where fuel: "fuel = Suc fuel'" and k: "k < fuel'" by (cases fuel) auto
  from Suc.prems(1) have "isl (outcome fn s 0)" and d0: "describe (projl (outcome fn s 0)) = None"
    by auto
  then obtain err s' where fn: "fn s = (Inl err, s')"
    by (cases "fn s"; cases "fst (fn s)") auto
  with d0 have d: "describe err = None" by simp
  have later: "\<forall>i<k. isl (outcome fn s' i) \<and> describe (projl (outcome fn s' i)) = None"
  proof (intro allI impI)
    fix i assume "i < k"
    then have "Suc i < Suc k" by simp
    with Suc.prems(1) have "isl (outcome fn s (Suc i)) \<and> describe (projl (outcome fn s (Suc i))) = None"
      by blast
    with fn show "isl (outcome fn s' i) \<and> describe (projl (outcome fn s' i)) = None" by simp
  qed
  have v: "outcome fn s' k = Inr v"
    using Suc.prems(2) fn by simp
  have nx: "next_attempt a + k \<le> a + Suc k"
    using next_attempt_le [of a] by simp
  have le': "\<forall>c\<le>next_attempt a + k. num_le (real c) attempts"
    using Suc.prems(3) nx by auto
  have ge': "\<forall>c<next_attempt a + k. \<not> num_ge (real c) attempts"
    using Suc.prems(4) nx by auto
  have here: "num_le (real a) attempts" "\<not> num_ge (real a) attempts"
    using Suc.prems(3,4) by auto
  from Suc.IH [OF later v le' ge' k]
  obtain journal' where
    "withRetry_loop fuel' fn describe P base maxDelay random opLabel attempts (next_attempt a)
       (Some err) s'
       (journal @ [\<lparr>note_label = opLabel, note_attempt = a, note_attempts = attempts,
                  note_delay = backoffDelayMs P base maxDelay (random a) a,
                  note_error = err\<rparr>])
     = Some (Inr v, state_after fn s' (Suc k), journal')"
    by blast
  with fn here d show ?case
    unfolding fuel by (simp add: withRetry_loop.simps(2))
qed


lemma loop_gives_up:
  assumes "\<forall>i<Suc m. isl (outcome fn s i) \<and> describe (projl (outcome fn s i)) = None"
    and "real (a + m) \<le> x" and "x < real (a + Suc m)" and "x \<le> 9007199254740992"
    and "Suc (Suc m) \<le> fuel"
  shows "\<exists>journal'. withRetry_loop fuel fn describe P base maxDelay random opLabel (Finite x) a le s
           journal = Some (Inl (Some (projl (outcome fn s m))), state_after fn s (Suc m), journal')"
  using assms
proof (induction m arbitrary: a le s journal fuel)
  case 0
  then obtain f2 where fuel: "fuel = Suc (Suc f2)"
    by (cases fuel; cases "fuel - 1") auto
  from 0 obtain err s' where fn: "fn s = (Inl err, s')" and d: "describe err = None"
    by (cases "fn s"; cases "fst (fn s)") auto
  from "0.prems"(2,4) have "a < 9007199254740992 \<or> real a = x"
    by auto
  show ?case
  proof (cases "real a \<ge> x")
    case True
    with 0 fn show ?thesis
      unfolding fuel by (simp add: withRetry_loop.simps(2))
  next
    case False
    with "0.prems"(2,4) have "a < 9007199254740992" by auto
    then have "next_attempt a = Suc a" by (simp add: next_attempt_def)
    with False 0 fn d show ?thesis
      unfolding fuel by (simp add: withRetry_loop.simps(2))
  qed
next
  case (Suc m)
  then obtain fuel' where fuel: "fuel = Suc fuel'" and m: "Suc (Suc m) \<le> fuel'"
    by (cases fuel) auto
  from Suc.prems(1) have "isl (outcome fn s 0)" and d0: "describe (projl (outcome fn s 0)) = None"
    by auto
  then obtain err s' where fn: "fn s = (Inl err, s')"
    by (cases "fn s"; cases "fst (fn s)") auto
  with d0 have d: "describe err = None" by simp
  have later: "\<forall>i<Suc m. isl (outcome fn s' i) \<and> describe (projl (outcome fn s' i)) = None"
  proof (intro allI impI)
    fix i assume "i < Suc m"
    then have "Suc i < Suc (Suc m)" by simp
    with Suc.prems(1) have "isl (outcome fn s (Suc i)) \<and> describe (projl (outcome fn s (Suc i))) = None"
      by blast
    with fn show "isl (outcome fn s' i) \<and> describe (projl (outcome fn s' i)) = None" by simp
  qed
  have more: "real a < x" using Suc.prems(2) by simp
  with Suc.prems(4) have "a < 9007199254740992" by auto
  then have nx: "next_attempt a = Suc a" by (simp add: next_attempt_def)
  have b1: "real (Suc a + m) \<le> x" and b2: "x < real (Suc a + Suc m)"
    using Suc.prems(2,3) by simp_all
  from Suc.IH [OF later b1 b2 Suc.prems(4) m]
  obtain journal' where
    "withRetry_loop fuel' fn describe P base maxDelay random opLabel (Finite x) (Suc a) (Some err) s'
       (journal @ [\<lparr>note_label = opLabel, note_attempt = a, note_attempts = Finite x,
                  note_delay = backoffDelayMs P base maxDelay (random a) a,
                  note_error = err\<rparr>])
     = Some (Inl (Some (projl (outcome fn s' m))), state_after fn s' (Suc m), journal')"
    by blast
  with fn more d nx show ?case
    unfolding fuel by (simp add: withRetry_loop.simps(2))
qed



lemma floor_attempts:
  fixes x :: real assumes "1 \<le> x"
  shows "real (nat \<lfloor>x\<rfloor>) \<le> x" and "x < real (nat \<lfloor>x\<rfloor>) + 1" and "1 \<le> nat \<lfloor>x\<rfloor>"
proof -
  from assms have "1 \<le> \<lfloor>x\<rfloor>" by linarith
  then have eq: "real (nat \<lfloor>x\<rfloor>) = of_int \<lfloor>x\<rfloor>" by simp
  show "real (nat \<lfloor>x\<rfloor>) \<le> x" unfolding eq by linarith
  show "x < real (nat \<lfloor>x\<rfloor>) + 1" unfolding eq by linarith
  from \<open>1 \<le> \<lfloor>x\<rfloor>\<close> show "1 \<le> nat \<lfloor>x\<rfloor>" by linarith
qed

lemma withRetry_loop_eq:
  "withRetry fuel describe P base maxDelay random fn \<lparr>maxAttempts = limit, label = lbl\<rparr> s
     = withRetry_loop fuel fn describe P base maxDelay random
         (case lbl of Some l \<Rightarrow> l | None \<Rightarrow> ''operation'') (effective_attempts limit) 1 None s []"
  by (simp add: withRetry_def effective_attempts_def)

lemma effective_attempts_cases:
  "effective_attempts limit = NaN \<and> limit = Some NaN
   \<or> effective_attempts limit = PosInfinity
   \<or> (\<exists>x. effective_attempts limit = Finite x \<and> 1 \<le> x)"
proof (cases limit)
  case None
  then show ?thesis by (simp add: effective_attempts_def)
next
  case (Some m)
  then show ?thesis by (cases m) (simp_all add: effective_attempts_def)
qed

lemma outcome_flaky:
  "outcome (flaky k) i j
     = (if i + j < k then Inl (''failure'' @ replicate (Suc (i + j)) (CHR ''!'')) else Inr ''<html>'')"
  by (induction j arbitrary: i) (simp_all add: flaky_def)

text \<open>
  When the text of the warning cannot be built, the retries end there: with a ceiling of
  3, an operation whose first failure is such is invoked once, and what was thrown while
  building the text is what the wrapper throws.
\<close>

lemma retry_ends_when_warning_throws:
  "withRetry 3 (\<lambda>err. Some ''TypeError'') exact_arithmetic 500 8000 (\<lambda>i. 0) (counting (flaky 1))
     \<lparr>maxAttempts = Some (Finite 3), label = None\<rparr> (0, 0)
   = Some (Inl (Some ''TypeError''), (1, 1), [])"
  by (simp add: withRetry_def numeral_3_eq_3 withRetry_loop.simps(2) counting_def flaky_def)

text \<open>
  Claim C4, as the code has it. Let an operation fail on its first \<open>k\<close> invocations and
  succeed on invocation \<open>k + 1\<close>, each of these failures being one from which the text
  of the warning is built without a throw. Let the effective ceiling be the maximum of 1
  and the ceiling, 1 when none is given. If the effective ceiling is infinite, or a number
  whose whole part \<open>N\<close> is at least \<open>k + 1\<close>, the wrapper returns the value of the
  success and the operation was invoked exactly \<open>k + 1\<close> times. If it is a number of at
  most \<open>2^53\<close> whose whole part \<open>N\<close> is at most \<open>k\<close>, the wrapper fails, the operation
  was invoked exactly \<open>N\<close> times, and the failure thrown is the one of invocation \<open>N\<close>,
  the last one, as the operation raised it. In both cases the run ends: fuel above the
  number of invocations suffices. For a whole ceiling of at least 1, \<open>N\<close> is the ceiling.
\<close>

theorem retry_outcome:
  assumes fails: "\<forall>i<k. isl (outcome fn s i) \<and> describe (projl (outcome fn s i)) = None"
    and succeeds: "\<not> isl (outcome fn s k)"
  shows
    "((effective_attempts limit = PosInfinity \<or>
       (\<exists>x. effective_attempts limit = Finite x \<and> k + 1 \<le> nat \<lfloor>x\<rfloor>)) \<and> k < fuel \<longrightarrow>
        (\<exists>journal.
           withRetry fuel describe P base maxDelay random (counting fn)
             \<lparr>maxAttempts = limit, label = lbl\<rparr> (s, 0)
           = Some (Inr (projr (outcome fn s k)), (state_after fn s (k + 1), k + 1), journal)))
     \<and>
     (effective_attempts limit = Finite x \<and> nat \<lfloor>x\<rfloor> \<le> k \<and> x \<le> 9007199254740992 \<and>
      nat \<lfloor>x\<rfloor> < fuel \<longrightarrow>
        (\<exists>journal.
           withRetry fuel describe P base maxDelay random (counting fn)
             \<lparr>maxAttempts = limit, label = lbl\<rparr> (s, 0)
           = Some (Inl (Some (projl (outcome fn s (nat \<lfloor>x\<rfloor> - 1)))),
                   (state_after fn s (nat \<lfloor>x\<rfloor>), nat \<lfloor>x\<rfloor>), journal)))"
proof (intro conjI impI)
  assume a: "(effective_attempts limit = PosInfinity \<or>
       (\<exists>x. effective_attempts limit = Finite x \<and> k + 1 \<le> nat \<lfloor>x\<rfloor>)) \<and> k < fuel"
  have f: "\<forall>i<k. isl (outcome (counting fn) (s, 0) i) \<and>
             describe (projl (outcome (counting fn) (s, 0) i)) = None"
    using fails by (simp add: outcome_counting)
  have v: "outcome (counting fn) (s, 0) k = Inr (projr (outcome fn s k))"
    using succeeds by (simp add: outcome_counting)
  have le: "\<forall>c\<le>1 + k. num_le (real c) (effective_attempts limit)"
   and ge: "\<forall>c<1 + k. \<not> num_ge (real c) (effective_attempts limit)"
  proof -
    from a consider "effective_attempts limit = PosInfinity"
      | x where "effective_attempts limit = Finite x" "k + 1 \<le> nat \<lfloor>x\<rfloor>"
      by blast
    then have "(\<forall>c\<le>1 + k. num_le (real c) (effective_attempts limit)) \<and>
               (\<forall>c<1 + k. \<not> num_ge (real c) (effective_attempts limit))"
    proof cases
      case 1
      then show ?thesis by simp
    next
      case 2
      from 2(2) have "real (k + 1) \<le> x" by linarith
      with 2(1) show ?thesis by auto
    qed
    then show "\<forall>c\<le>1 + k. num_le (real c) (effective_attempts limit)"
      and "\<forall>c<1 + k. \<not> num_ge (real c) (effective_attempts limit)" by blast+
  qed
  from a have "k < fuel" by simp
  from loop_succeeds [OF f v le ge this]
  show "\<exists>journal.
           withRetry fuel describe P base maxDelay random (counting fn)
             \<lparr>maxAttempts = limit, label = lbl\<rparr> (s, 0)
           = Some (Inr (projr (outcome fn s k)), (state_after fn s (k + 1), k + 1), journal)"
    by (simp add: withRetry_loop_eq state_after_counting del: state_after.simps)
next
  assume a: "effective_attempts limit = Finite x \<and> nat \<lfloor>x\<rfloor> \<le> k \<and> x \<le> 9007199254740992 \<and>
      nat \<lfloor>x\<rfloor> < fuel"
  define N where "N = nat \<lfloor>x\<rfloor>"
  from effective_attempts_cases [of limit] a have "1 \<le> x" by auto
  from floor_attempts [OF this]
  have N_le: "real N \<le> x" and N_gt: "x < real N + 1" and N_pos: "1 \<le> N"
    by (simp_all add: N_def)
  have f: "\<forall>i<Suc (N - 1). isl (outcome (counting fn) (s, 0) i) \<and>
             describe (projl (outcome (counting fn) (s, 0) i)) = None"
  proof (intro allI impI)
    fix i assume "i < Suc (N - 1)"
    moreover from a have "N \<le> k" unfolding N_def by blast
    ultimately have "i < k" using N_pos by linarith
    with fails show "isl (outcome (counting fn) (s, 0) i) \<and>
             describe (projl (outcome (counting fn) (s, 0) i)) = None"
      by (simp add: outcome_counting)
  qed
  have b1: "real (1 + (N - 1)) \<le> x" using N_le N_pos by simp
  have b2: "x < real (1 + Suc (N - 1))" using N_gt N_pos by simp
  have b3: "x \<le> 9007199254740992" using a by simp
  from a have "N < fuel" unfolding N_def by blast
  with N_pos have b4: "Suc (Suc (N - 1)) \<le> fuel" by linarith
  have eqN: "Suc (nat \<lfloor>x\<rfloor> - Suc 0) = nat \<lfloor>x\<rfloor>" using N_pos by (simp add: N_def)
  from a have att: "effective_attempts limit = Finite x" by blast
  obtain journal where
    "withRetry_loop fuel (counting fn) describe P base maxDelay random
       (case lbl of Some l \<Rightarrow> l | None \<Rightarrow> ''operation'') (Finite x) 1 None (s, 0) []
     = Some (Inl (Some (projl (outcome (counting fn) (s, 0) (N - 1)))),
             state_after (counting fn) (s, 0) (Suc (N - 1)), journal)"
    using loop_gives_up [OF f b1 b2 b3 b4] by blast
  then show "\<exists>journal.
           withRetry fuel describe P base maxDelay random (counting fn)
             \<lparr>maxAttempts = limit, label = lbl\<rparr> (s, 0)
           = Some (Inl (Some (projl (outcome fn s (nat \<lfloor>x\<rfloor> - 1)))),
                   (state_after fn s (nat \<lfloor>x\<rfloor>), nat \<lfloor>x\<rfloor>), journal)"
    by (simp add: withRetry_loop_eq att state_after_counting outcome_counting N_def eqN
        del: state_after.simps)
qed

theorem retry_outcome_witness:
  "(\<exists>journal. withRetry 5 (\<lambda>err. None) exact_arithmetic 500 8000 (\<lambda>i. 0) (counting (flaky 2))
          \<lparr>maxAttempts = Some (Finite 3), label = None\<rparr> (0, 0)
        = Some (Inr ''<html>'', (3, 3), journal))
   \<and> (\<exists>journal. withRetry 5 (\<lambda>err. None) exact_arithmetic 500 8000 (\<lambda>i. 0) (counting (flaky 2))
          \<lparr>maxAttempts = Some (Finite 2), label = None\<rparr> (0, 0)
        = Some (Inl (Some ''failure!!''), (2, 2), journal))"
proof
  have fails: "\<forall>i<2. isl (outcome (flaky 2) 0 i) \<and> None = (None :: string option)"
    by (simp add: outcome_flaky)
  have succeeds: "\<not> isl (outcome (flaky 2) 0 2)"
    by (simp add: outcome_flaky)
  have st: "state_after (flaky 2) 0 i = i" for i
  proof -
    have "state_after (flaky 2) j i = j + i" for j
      by (induction i arbitrary: j) (simp_all add: flaky_def)
    from this [of 0] show ?thesis by simp
  qed
  have out: "projr (outcome (flaky 2) 0 2) = ''<html>''"
    "projl (outcome (flaky 2) 0 (nat \<lfloor>2::real\<rfloor> - 1)) = ''failure!!''"
    by (simp_all add: outcome_flaky flaky_def)
  have p3: "(effective_attempts (Some (Finite 3)) = PosInfinity \<or>
         (\<exists>x. effective_attempts (Some (Finite 3)) = Finite x \<and> 2 + 1 \<le> nat \<lfloor>x\<rfloor>)) \<and> (2::nat) < 5"
    by (simp add: effective_attempts_def)
  from retry_outcome [where describe = "\<lambda>err. None" and fn = "flaky 2" and s = 0 and k = 2
        and limit = "Some (Finite 3)" and fuel = 5 and P = exact_arithmetic and base = 500
        and maxDelay = 8000 and random = "\<lambda>i. 0" and lbl = None,
        OF fails succeeds, THEN conjunct1, THEN mp, OF p3]
  show "\<exists>journal. withRetry 5 (\<lambda>err. None) exact_arithmetic 500 8000 (\<lambda>i. 0) (counting (flaky 2))
          \<lparr>maxAttempts = Some (Finite 3), label = None\<rparr> (0, 0)
        = Some (Inr ''<html>'', (3, 3), journal)"
    by (simp only: st out) simp
  have p2: "effective_attempts (Some (Finite 2)) = Finite 2 \<and> nat \<lfloor>2::real\<rfloor> \<le> 2 \<and>
        (2::real) \<le> 9007199254740992 \<and> nat \<lfloor>2::real\<rfloor> < 5"
    by (simp add: effective_attempts_def)
  from retry_outcome [where describe = "\<lambda>err. None" and fn = "flaky 2" and s = 0 and k = 2
        and limit = "Some (Finite 2)" and fuel = 5 and P = exact_arithmetic and base = 500
        and maxDelay = 8000 and random = "\<lambda>i. 0" and lbl = None and x = 2,
        OF fails succeeds, THEN conjunct2, THEN mp, OF p2]
  show "\<exists>journal. withRetry 5 (\<lambda>err. None) exact_arithmetic 500 8000 (\<lambda>i. 0) (counting (flaky 2))
          \<lparr>maxAttempts = Some (Finite 2), label = None\<rparr> (0, 0)
        = Some (Inl (Some ''failure!!''), (2, 2), journal)"
    by (simp only: st out) simp
qed

text \<open>
  With the ceiling 0 and an operation that succeeds at once (\<open>k = 0\<close>), the ceiling is at
  most \<open>k\<close>, yet the wrapper returns the success and the operation was invoked once, not
  zero times.
\<close>

theorem retry_ceiling_zero_counterexample:
  "\<not> isl (outcome always_ok () 0)
   \<and> withRetry 1 (\<lambda>err. None) exact_arithmetic 500 8000 (\<lambda>i. 0) (counting always_ok)
          \<lparr>maxAttempts = Some (Finite 0), label = None\<rparr> ((), 0)
       = Some (Inr ''<html>'', ((), 1), [])"
  by (simp add: withRetry_def always_ok_def counting_def withRetry_loop.simps(2))




section \<open>Properties of the backoff policy\<close>






section \<open>Properties of the configuration\<close>

lemma envNumber_unset: "env name = None \<Longrightarrow> envNumber toNumber env name d = d"
  by (simp add: envNumber_def)

lemma envNumber_empty: "env name = Some [] \<Longrightarrow> envNumber toNumber env name d = d"
  by (simp add: envNumber_def)

lemma envNumber_finite:
  "env name = Some raw \<Longrightarrow> raw \<noteq> [] \<Longrightarrow> toNumber raw = Finite x \<Longrightarrow>
   envNumber toNumber env name d = x"
  by (simp add: envNumber_def)

lemma envNumber_not_finite:
  "env name = Some raw \<Longrightarrow> \<forall>x. toNumber raw \<noteq> Finite x \<Longrightarrow> envNumber toNumber env name d = d"
  by (cases "toNumber raw") (simp_all add: envNumber_def)

lemma envNumber_rule: "override_rule toNumber env name d (envNumber toNumber env name d)"
  unfolding override_rule_def
  by (auto simp: envNumber_unset envNumber_empty envNumber_finite envNumber_not_finite)

lemma override_rule_unset:
  "override_rule toNumber env name d v \<Longrightarrow> env name = None \<Longrightarrow> v = d"
  unfolding override_rule_def by blast

lemma override_rule_empty:
  "override_rule toNumber env name d v \<Longrightarrow> env name = Some [] \<Longrightarrow> v = d"
  unfolding override_rule_def by blast

lemma override_rule_not_finite:
  "override_rule toNumber env name d v \<Longrightarrow> env name = Some raw \<Longrightarrow>
   \<forall>x. toNumber raw \<noteq> Finite x \<Longrightarrow> v = d"
  unfolding override_rule_def by blast

lemma override_rule_finite:
  "override_rule toNumber env name d v \<Longrightarrow> env name = Some raw \<Longrightarrow> raw \<noteq> [] \<Longrightarrow>
   toNumber raw = Finite x \<Longrightarrow> v = x"
  unfolding override_rule_def by blast

text \<open>
  Claim C8, as the code has it. For each of the three overrides (attempts, base delay,
  maximal delay; defaults 3, 500 and 8000): when the variable is unset or empty, or its
  text converts to no finite number, the parameter is the default; otherwise it is the
  number the text converts to, negative or not.
\<close>

theorem config_overrides:
  "override_rule toNumber env ''FETCH_RETRY_MAX'' 3 (FETCH_RETRY_MAX toNumber env)
   \<and> override_rule toNumber env ''FETCH_RETRY_BASE_DELAY_MS'' 500
        (FETCH_RETRY_BASE_DELAY_MS toNumber env)
   \<and> override_rule toNumber env ''FETCH_RETRY_MAX_DELAY_MS'' 8000
        (FETCH_RETRY_MAX_DELAY_MS toNumber env)"
  by (simp add: FETCH_RETRY_MAX_def FETCH_RETRY_BASE_DELAY_MS_def FETCH_RETRY_MAX_DELAY_MS_def
      envNumber_rule)

theorem config_overrides_witness:
  "FETCH_RETRY_MAX Number_decimal sample_env = - 5
   \<and> FETCH_RETRY_BASE_DELAY_MS Number_decimal sample_env = 500
   \<and> FETCH_RETRY_MAX_DELAY_MS Number_decimal sample_env = 8000
   \<and> FETCH_RETRY_MAX Number_decimal Map.empty = 3"
proof (intro conjI)
  show "FETCH_RETRY_MAX Number_decimal sample_env = - 5"
  proof (rule override_rule_finite [OF config_overrides [THEN conjunct1]])
    show "sample_env ''FETCH_RETRY_MAX'' = Some ''-5''" by (simp add: sample_env_def)
    show "''-5'' \<noteq> []" by simp
    show "Number_decimal ''-5'' = Finite (- 5)" by (simp add: Number_decimal_def digit_value_def trim_def blank_def)
  qed
  show "FETCH_RETRY_BASE_DELAY_MS Number_decimal sample_env = 500"
  proof (rule override_rule_not_finite [OF config_overrides [THEN conjunct2, THEN conjunct1]])
    show "sample_env ''FETCH_RETRY_BASE_DELAY_MS'' = Some ''soon''" by (simp add: sample_env_def)
    show "\<forall>x. Number_decimal ''soon'' \<noteq> Finite x"
      by (simp add: Number_decimal_def digit_value_def trim_def blank_def)
  qed
  show "FETCH_RETRY_MAX_DELAY_MS Number_decimal sample_env = 8000"
  proof (rule override_rule_empty [OF config_overrides [THEN conjunct2, THEN conjunct2]])
    show "sample_env ''FETCH_RETRY_MAX_DELAY_MS'' = Some []" by (simp add: sample_env_def)
  qed
  show "FETCH_RETRY_MAX Number_decimal Map.empty = 3"
    by (rule override_rule_unset [OF config_overrides [THEN conjunct1]]) simp
qed

text \<open>
  With \<^verbatim>\<open>FETCH_RETRY_MAX=-5\<close>, a text that is not a non-negative number, the parameter
  is \<open>-5\<close>, not the default 3.
\<close>

theorem negative_override_counterexample:
  "FETCH_RETRY_MAX Number_decimal [''FETCH_RETRY_MAX'' \<mapsto> ''-5''] = - 5
   \<and> FETCH_RETRY_MAX Number_decimal [''FETCH_RETRY_MAX'' \<mapsto> ''-5''] \<noteq> 3
   \<and> FETCH_RETRY_MAX Number_decimal [''FETCH_RETRY_MAX'' \<mapsto> ''-5''] < 0"
  by (simp add: FETCH_RETRY_MAX_def envNumber_def Number_decimal_def digit_value_def trim_def blank_def)

section \<open>Properties of the pipeline\<close>

lemma truthy_iff:
  "\<not> truthy v \<longleftrightarrow>
     v = JUndefined \<or> v = JNull \<or> v = JBool False \<or> v = JNum 0 \<or> v = JNaN \<or> v = JStr ''''"
  by (cases v) auto

text \<open>
  Claim C6. Whatever the recovered state, the article list is looked for in the field
  \<^verbatim>\<open>data\<close>, in its first element, in the field \<^verbatim>\<open>hotArticlesList\<close> of that element.
  When \<^verbatim>\<open>data\<close> is not an array, when it has no first element, or when
  \<^verbatim>\<open>hotArticlesList\<close> is not an array, the result is the structure error and no feed;
  when the list is found the result is the feed built from it; and the pipeline, once the
  page is fetched, the expression extracted and evaluated, returns exactly this result.
\<close>

theorem list_not_found:
  "(\<not> isArray (opt_chain nuxtData ''data'') \<longrightarrow> feedOfState nuxtData now = Inl StructureError)
   \<and> (opt_chain nuxtData ''data'' = JArr [] \<longrightarrow> feedOfState nuxtData now = Inl StructureError)
   \<and> (\<not> isArray (opt_chain (index0 (opt_chain nuxtData ''data'')) ''hotArticlesList'') \<longrightarrow>
        feedOfState nuxtData now = Inl StructureError)
   \<and> (opt_chain nuxtData ''data'' = JArr (first # others) \<and>
        opt_chain first ''hotArticlesList'' = JArr hotArticlesList \<longrightarrow>
        feedOfState nuxtData now
          = Inr (buildRssFromHotArticles hotArticlesList generateRss_opts now))
   \<and> (fetchHtmlWithRetry fuel P toNumber env random fetch HOME_URL w
          = Some (Inr html, w2, journal) \<and>
        extractNuxtExpression html = Inr iifeExpr \<and>
        evalNuxtExpression vm iifeExpr = Inr nuxtData \<longrightarrow>
        generateRss fuel P toNumber env random fetch vm now w
          = Some (feedOfState nuxtData now, w2))"
proof (intro conjI impI)
  assume "\<not> isArray (opt_chain nuxtData ''data'')"
  then show "feedOfState nuxtData now = Inl StructureError"
    by (simp add: feedOfState_def)
next
  assume "opt_chain nuxtData ''data'' = JArr []"
  then show "feedOfState nuxtData now = Inl StructureError"
    by (simp add: feedOfState_def)
next
  assume "\<not> isArray (opt_chain (index0 (opt_chain nuxtData ''data'')) ''hotArticlesList'')"
  then show "feedOfState nuxtData now = Inl StructureError"
    by (simp add: feedOfState_def Let_def)
next
  assume "opt_chain nuxtData ''data'' = JArr (first # others) \<and>
        opt_chain first ''hotArticlesList'' = JArr hotArticlesList"
  then show "feedOfState nuxtData now
          = Inr (buildRssFromHotArticles hotArticlesList generateRss_opts now)"
    by (simp add: feedOfState_def)
next
  assume "fetchHtmlWithRetry fuel P toNumber env random fetch HOME_URL w
          = Some (Inr html, w2, journal) \<and>
        extractNuxtExpression html = Inr iifeExpr \<and>
        evalNuxtExpression vm iifeExpr = Inr nuxtData"
  then show "generateRss fuel P toNumber env random fetch vm now w
          = Some (feedOfState nuxtData now, w2)"
    by (simp add: generateRss_def)
qed

theorem list_not_found_witness:
  "feedOfState (JObj [(''data'', JNum 5)]) ''now'' = Inl StructureError
   \<and> feedOfState (JObj [(''data'', JArr [])]) ''now'' = Inl StructureError
   \<and> feedOfState (JObj [(''data'', JArr [JObj [(''hotArticlesList'', JStr ''none'')]])]) ''now''
       = Inl StructureError
   \<and> feedOfState sample_state ''now'' = Inr (buildRssFromHotArticles [] generateRss_opts ''now'')
   \<and> generateRss 1 exact_arithmetic Number_decimal Map.empty (\<lambda>i. 0) sample_fetch sample_vm
         ''now'' 0
       = Some (feedOfState sample_state ''now'', 1)"
proof (intro conjI)
  show "feedOfState (JObj [(''data'', JNum 5)]) ''now'' = Inl StructureError"
    by (rule list_not_found [THEN conjunct1, THEN mp]) simp
  show "feedOfState (JObj [(''data'', JArr [])]) ''now'' = Inl StructureError"
    by (rule list_not_found [THEN conjunct2, THEN conjunct1, THEN mp]) simp
  show "feedOfState (JObj [(''data'', JArr [JObj [(''hotArticlesList'', JStr ''none'')]])]) ''now''
       = Inl StructureError"
    by (rule list_not_found [THEN conjunct2, THEN conjunct2, THEN conjunct1, THEN mp]) simp
  show "feedOfState sample_state ''now'' = Inr (buildRssFromHotArticles [] generateRss_opts ''now'')"
    by (rule list_not_found
          [of sample_state "''now''" "JObj [(''hotArticlesList'', JArr [])]" "[]" "[]",
           THEN conjunct2, THEN conjunct2, THEN conjunct2, THEN conjunct1, THEN mp])
       (simp add: sample_state_def)
  have f: "fetchHtmlWithRetry 1 exact_arithmetic Number_decimal Map.empty (\<lambda>i. 0) sample_fetch
            HOME_URL 0
          = Some (Inr (''<script>'' @ sample @ ''</script>''), 1, [])"
    by (simp add: fetchHtmlWithRetry_def withRetry_def withRetry_loop.simps(2) fetchHtml_def
        sample_fetch_def FETCH_RETRY_MAX_def envNumber_def)
  have x: "extractNuxtExpression (''<script>'' @ sample @ ''</script>'') = Inr sample_expr"
    by (simp add: extractNuxtExpression_def group1_def NUXT_RE_def sample_def sample_expr_def
        rx_match.simps)
  have e: "evalNuxtExpression sample_vm sample_expr = Inr sample_state"
    by (simp add: evalNuxtExpression_def sample_vm_def sample_state_def)
  show "generateRss 1 exact_arithmetic Number_decimal Map.empty (\<lambda>i. 0) sample_fetch sample_vm
         ''now'' 0
       = Some (feedOfState sample_state ''now'', 1)"
    by (rule list_not_found
          [of sample_state "''now''" _ _ _ 1 exact_arithmetic Number_decimal Map.empty "\<lambda>i. 0"
              sample_fetch 0 "''<script>'' @ sample @ ''</script>''" 1 "[]" sample_expr sample_vm,
           THEN conjunct2, THEN conjunct2, THEN conjunct2, THEN conjunct2, THEN mp])
       (intro conjI f x e)
qed

section \<open>Properties of the sandboxed evaluator\<close>

text \<open>
  Claim C7, as the code has it. Let the script leave the value \<open>v\<close> in the property. The
  evaluator fails with the no-result error if and only if \<open>v\<close> is falsy: \<^verbatim>\<open>undefined\<close>,
  \<^verbatim>\<open>null\<close>, \<^verbatim>\<open>false\<close>, the number 0, \<^verbatim>\<open>NaN\<close> or the empty string; for every other
  value it returns \<open>v\<close>.
\<close>

theorem eval_no_result:
  assumes "vm (''window.__NUXT__ = '' @ iifeExpr @ '';'') = Inr v"
  shows "(evalNuxtExpression vm iifeExpr = Inl NoResultError \<longleftrightarrow>
            v = JUndefined \<or> v = JNull \<or> v = JBool False \<or> v = JNum 0 \<or> v = JNaN \<or>
            v = JStr '''')
         \<and> (evalNuxtExpression vm iifeExpr = Inr v \<longleftrightarrow>
            \<not> (v = JUndefined \<or> v = JNull \<or> v = JBool False \<or> v = JNum 0 \<or> v = JNaN \<or>
               v = JStr ''''))"
  using assms by (simp add: evalNuxtExpression_def truthy_iff [symmetric])

theorem eval_no_result_witness:
  "evalNuxtExpression sample_vm sample_expr = Inr sample_state
   \<and> evalNuxtExpression falsy_vm sample_expr = Inl NoResultError"
proof
  have "sample_vm (''window.__NUXT__ = '' @ sample_expr @ '';'') = Inr sample_state"
    by (simp add: sample_vm_def)
  from eval_no_result [of sample_vm sample_expr sample_state, OF this]
  show "evalNuxtExpression sample_vm sample_expr = Inr sample_state"
    by (simp add: sample_state_def)
  have "falsy_vm (''window.__NUXT__ = '' @ sample_expr @ '';'') = Inr (JBool False)"
    by (simp add: falsy_vm_def)
  from eval_no_result [of falsy_vm sample_expr "JBool False", OF this]
  show "evalNuxtExpression falsy_vm sample_expr = Inl NoResultError"
    by simp
qed

text \<open>
  A script that leaves \<^verbatim>\<open>false\<close> in the property: the value is neither \<^verbatim>\<open>undefined\<close>
  nor \<^verbatim>\<open>null\<close>, and the evaluator fails with the no-result error.
\<close>

theorem eval_false_counterexample:
  "falsy_vm (''window.__NUXT__ = '' @ sample_expr @ '';'') = Inr (JBool False)
   \<and> JBool False \<noteq> JUndefined \<and> JBool False \<noteq> JNull
   \<and> evalNuxtExpression falsy_vm sample_expr = Inl NoResultError"
  by (simp add: falsy_vm_def evalNuxtExpression_def)

section \<open>Properties of the extractor\<close>

lemma match_sample:
  "rx_match NUXT_RE (sample @ suf) [] = Some [sample_expr @ CHR '';'' # suf, CHR '';'' # suf]"
  by (simp add: NUXT_RE_def sample_def sample_expr_def rx_match.simps)

lemma group1_sample: "group1 [sample_expr @ CHR '';'' # suf, CHR '';'' # suf] = sample_expr"
  by (simp add: group1_def sample_expr_def)

lemma exec_first: "rx_match re s [] = Some r \<Longrightarrow> exec re s = Some r"
  by (cases s) simp_all

lemma exec_skip:
  "\<forall>i<length pre. rx_match re (drop i (pre @ s)) [] = None \<Longrightarrow> exec re (pre @ s) = exec re s"
proof (induction pre)
  case Nil
  then show ?case by simp
next
  case (Cons c pre)
  have "0 < length (c # pre)" by simp
  with Cons.prems have "rx_match re (drop 0 ((c # pre) @ s)) [] = None"
    by blast
  then have here: "rx_match re (c # pre @ s) [] = None" by simp
  have "\<forall>i<length pre. rx_match re (drop i (pre @ s)) [] = None"
  proof (intro allI impI)
    fix i assume "i < length pre"
    then have "Suc i < length (c # pre)" by simp
    with Cons.prems have "rx_match re (drop (Suc i) ((c # pre) @ s)) [] = None" by blast
    then show "rx_match re (drop i (pre @ s)) [] = None" by simp
  qed
  with Cons.IH have "exec re (pre @ s) = exec re s" by blast
  with here show ?case by simp
qed

lemma exec_finds: "rx_match re s [] = Some r \<Longrightarrow> \<exists>r'. exec re (pre @ s) = Some r'"
proof (induction pre)
  case Nil
  then show ?case by (simp add: exec_first)
next
  case (Cons c pre)
  then show ?case by (cases "rx_match re (c # pre @ s) []") simp_all
qed

lemma exec_None:
  "\<forall>i\<le>length s. rx_match re (drop i s) [] = None \<Longrightarrow> exec re s = None"
proof (induction s)
  case Nil
  then show ?case by simp
next
  case (Cons c cs)
  from Cons.prems have "rx_match re (drop 0 (c # cs)) [] = None" by blast
  then have here: "rx_match re (c # cs) [] = None" by simp
  have "\<forall>i\<le>length cs. rx_match re (drop i cs) [] = None"
  proof (intro allI impI)
    fix i assume "i \<le> length cs"
    then have "Suc i \<le> length (c # cs)" by simp
    with Cons.prems have "rx_match re (drop (Suc i) (c # cs)) [] = None" by blast
    then show "rx_match re (drop i cs) [] = None" by simp
  qed
  with Cons.IH have "exec re cs = None" by blast
  with here show ?case by simp
qed

text \<open>
  Claim C9, as the code has it. For every text that contains the fragment
  \<^verbatim>\<open>window.__NUXT__ = (function(a,b){return {data:[{hotArticlesList:[]}]}}(1,2));\<close>
  the extraction succeeds. It returns the expression of the fragment,
  \<^verbatim>\<open>(function(a,b){return {data:[{hotArticlesList:[]}]}}(1,2))\<close>, when the pattern
  matches at no position before the fragment: the match that starts leftmost is the one
  taken. When the virtual machine gives the script of this expression
  the state that JavaScript gives it, the evaluator returns that state, and
  \<^verbatim>\<open>data[0].hotArticlesList\<close> of it is the empty array. For every text in which the
  pattern matches at no position, the extraction fails with the not-found error.
\<close>

theorem extraction_of_sample:
  "(\<exists>e. extractNuxtExpression (pre @ sample @ suf) = Inr e)
   \<and> ((\<forall>i<length pre. rx_match NUXT_RE (drop i (pre @ sample @ suf)) [] = None) \<longrightarrow>
        extractNuxtExpression (pre @ sample @ suf) = Inr sample_expr)
   \<and> (vm (''window.__NUXT__ = '' @ sample_expr @ '';'') = Inr sample_state \<longrightarrow>
        evalNuxtExpression vm sample_expr = Inr sample_state \<and>
        opt_chain (index0 (opt_chain sample_state ''data'')) ''hotArticlesList'' = JArr [])
   \<and> ((\<forall>i\<le>length html. rx_match NUXT_RE (drop i html) [] = None) \<longrightarrow>
        extractNuxtExpression html = Inl NotFoundError)"
proof (intro conjI impI)
  from exec_finds [OF match_sample]
  obtain r where "exec NUXT_RE (pre @ sample @ suf) = Some r" by blast
  then show "\<exists>e. extractNuxtExpression (pre @ sample @ suf) = Inr e"
    by (simp add: extractNuxtExpression_def)
next
  assume "\<forall>i<length pre. rx_match NUXT_RE (drop i (pre @ sample @ suf)) [] = None"
  then have "exec NUXT_RE (pre @ sample @ suf) = exec NUXT_RE (sample @ suf)"
    by (rule exec_skip)
  also have "\<dots> = Some [sample_expr @ CHR '';'' # suf, CHR '';'' # suf]"
    by (rule exec_first [OF match_sample])
  finally show "extractNuxtExpression (pre @ sample @ suf) = Inr sample_expr"
    by (simp add: extractNuxtExpression_def group1_sample)
next
  assume "vm (''window.__NUXT__ = '' @ sample_expr @ '';'') = Inr sample_state"
  then show "evalNuxtExpression vm sample_expr = Inr sample_state"
    by (simp add: evalNuxtExpression_def sample_state_def)
next
  show "opt_chain (index0 (opt_chain sample_state ''data'')) ''hotArticlesList'' = JArr []"
    by (simp add: sample_state_def)
next
  assume "\<forall>i\<le>length html. rx_match NUXT_RE (drop i html) [] = None"
  then have "exec NUXT_RE html = None" by (rule exec_None)
  then show "extractNuxtExpression html = Inl NotFoundError"
    by (simp add: extractNuxtExpression_def)
qed

theorem extraction_of_sample_witness:
  "extractNuxtExpression (''<p>'' @ sample @ ''</p>'') = Inr sample_expr
   \<and> evalNuxtExpression sample_vm sample_expr = Inr sample_state
   \<and> extractNuxtExpression ''<br>'' = Inl NotFoundError"
proof (intro conjI)
  have before: "\<forall>i<length ''<p>''. rx_match NUXT_RE (drop i (''<p>'' @ sample @ ''</p>'')) [] = None"
  proof (intro allI impI)
    fix i :: nat
    assume "i < length ''<p>''"
    then consider "i = 0" | "i = 1" | "i = 2"
      by (auto simp: less_Suc_eq)
    then show "rx_match NUXT_RE (drop i (''<p>'' @ sample @ ''</p>'')) [] = None"
      by cases (simp_all add: sample_def NUXT_RE_def rx_match.simps)
  qed
  show "extractNuxtExpression (''<p>'' @ sample @ ''</p>'') = Inr sample_expr"
    by (rule extraction_of_sample [THEN conjunct2, THEN conjunct1, THEN mp]) (rule before)
  have "sample_vm (''window.__NUXT__ = '' @ sample_expr @ '';'') = Inr sample_state"
    by (simp add: sample_vm_def)
  from extraction_of_sample [of _ _ sample_vm, THEN conjunct2, THEN conjunct2, THEN conjunct1, THEN mp, OF this]
  show "evalNuxtExpression sample_vm sample_expr = Inr sample_state"
    by (rule conjunct1)
  have nowhere: "\<forall>i\<le>length ''<br>''. rx_match NUXT_RE (drop i ''<br>'') [] = None"
  proof (intro allI impI)
    fix i :: nat
    assume "i \<le> length ''<br>''"
    then consider "i = 0" | "i = 1" | "i = 2" | "i = 3" | "i = 4"
      by (auto simp: le_Suc_eq)
    then show "rx_match NUXT_RE (drop i ''<br>'') [] = None"
      by cases (simp_all add: NUXT_RE_def rx_match.simps)
  qed
  show "extractNuxtExpression ''<br>'' = Inl NotFoundError"
    by (rule extraction_of_sample [THEN conjunct2, THEN conjunct2, THEN conjunct2, THEN mp])
       (rule nowhere)
qed

text \<open>
  A text with an assignment of an empty function before the fragment: the extraction
  returns that earlier expression, not the one of the fragment.
\<close>

theorem earlier_assignment_counterexample:
  "extractNuxtExpression (''window.__NUXT__=(function(){}());'' @ sample) = Inr ''(function(){}())''
   \<and> ''(function(){}())'' \<noteq> sample_expr"
  by (simp add: extractNuxtExpression_def group1_def NUXT_RE_def sample_def sample_expr_def
      rx_match.simps)

end
